theory Spec2Isabelle
  imports Main
begin

section \<open>Go values\<close>

text \<open>
  A Go string or byte slice is a sequence of bytes: a HOL \<open>string\<close> (a list of 8-bit
  characters). A \<open>time.Duration\<close> is a number of nanoseconds.

  A \<open>time.Time\<close> is an instant, counted in nanoseconds from the zero Time (January 1 of
  year 1, 00:00:00 UTC), and the offset of its location at that instant, in seconds east
  of UTC. The name of the location and the monotonic clock reading are not part of the
  model: two values of the same instant and offset are the same value.
\<close>

type_synonym duration = int

record Time =
  nanos :: int
  zone :: int

definition IsZero :: "Time \<Rightarrow> bool" where
  "IsZero t = (nanos t = 0)"

definition Before :: "Time \<Rightarrow> Time \<Rightarrow> bool" where
  "Before t u = (nanos t < nanos u)"

definition Add :: "Time \<Rightarrow> duration \<Rightarrow> Time" where
  "Add t d = t\<lparr>nanos := nanos t + d\<rparr>"

definition Hour :: duration where
  "Hour = 3600000000000"

text \<open>
  Every error value the modelled code can return. \<open>Wrapped m e\<close> is
  \<open>fmt.Errorf("m: %s", e)\<close>, \<open>Msg m\<close> is \<open>fmt.Errorf("m")\<close>.
\<close>

datatype error =
    RandReadError
  | DecryptionError
  | JSONMarshalError
  | JSONSyntaxError
  | JSONTypeError
  | KeySizeError nat
  | CorruptInputError
  | ErrNoCookie
  | RedisNil
  | RedisUnavailable
  | Msg string
  | Wrapped string error

text \<open>
  The outcome of a call that may panic: the value it returns, the error it returns, or
  the panic. A panic is not an error value: no caller in the modelled code recovers it,
  so it passes through every caller unchanged.
\<close>

datatype 'a result = Ok 'a | Err error | Panic string

subsection \<open>crypto/rand\<close>

text \<open>
  \<open>rand.Reader\<close> is the supply of bytes it will still deliver. \<open>io.ReadFull\<close> of \<open>n\<close> bytes
  takes them from the supply, and fails when the supply is short.
\<close>

type_synonym rng = string

definition ReadFull :: "nat \<Rightarrow> rng \<Rightarrow> (error + string) \<times> rng" where
  "ReadFull n r =
     (if length r < n then (Inl RandReadError, drop n r) else (Inr (take n r), drop n r))"

subsection \<open>Bytes\<close>

text \<open>The exclusive or of two bytes, bit by bit.\<close>

fun xor_byte :: "char \<Rightarrow> char \<Rightarrow> char" where
  "xor_byte (Char a0 a1 a2 a3 a4 a5 a6 a7) (Char b0 b1 b2 b3 b4 b5 b6 b7) =
     Char (a0 \<noteq> b0) (a1 \<noteq> b1) (a2 \<noteq> b2) (a3 \<noteq> b3) (a4 \<noteq> b4) (a5 \<noteq> b5) (a6 \<noteq> b6) (a7 \<noteq> b7)"

subsection \<open>unicode/utf8\<close>

text \<open>
  \<open>rune_size s\<close> is the number of bytes of the UTF-8 encoding that begins \<open>s\<close>, and 0 when
  \<open>s\<close> does not begin with one (\<open>utf8.DecodeRuneInString\<close> then returns \<open>RuneError\<close> and the
  width 1). The first byte decides the length and the range of the second byte: overlong
  forms, surrogates and values above U+10FFFF are not encodings.
\<close>

definition in_range :: "char \<Rightarrow> nat \<Rightarrow> nat \<Rightarrow> bool" where
  "in_range c lo hi = (lo \<le> of_char c \<and> (of_char c :: nat) \<le> hi)"

definition rune_size :: "string \<Rightarrow> nat" where
  "rune_size s =
     (case s of
        [] \<Rightarrow> 0
      | c0 # cs \<Rightarrow>
          (let b0 = (of_char c0 :: nat) in
           if b0 < 0x80 then 1
           else if b0 < 0xC2 then 0
           else if b0 < 0xE0 then
             (case cs of
                c1 # cs1 \<Rightarrow> if in_range c1 0x80 0xBF then 2 else 0
              | [] \<Rightarrow> 0)
           else if b0 < 0xF0 then
             (case cs of
                c1 # c2 # cs2 \<Rightarrow>
                  if in_range c1 (if b0 = 0xE0 then 0xA0 else 0x80)
                                 (if b0 = 0xED then 0x9F else 0xBF)
                     \<and> in_range c2 0x80 0xBF
                  then 3 else 0
              | short \<Rightarrow> 0)
           else if b0 < 0xF5 then
             (case cs of
                c1 # c2 # c3 # cs3 \<Rightarrow>
                  if in_range c1 (if b0 = 0xF0 then 0x90 else 0x80)
                                 (if b0 = 0xF4 then 0x8F else 0xBF)
                     \<and> in_range c2 0x80 0xBF \<and> in_range c3 0x80 0xBF
                  then 4 else 0
              | short \<Rightarrow> 0)
           else 0))"

text \<open>\<open>utf8.ValidString\<close>: the string is a sequence of encodings.\<close>

function ValidString :: "string \<Rightarrow> bool" where
  "ValidString s =
     (if s = [] then True
      else if rune_size s = 0 then False
      else ValidString (drop (rune_size s) s))"
  by pat_completeness auto
termination
  by (relation "measure length") auto

declare ValidString.simps [simp del]

section \<open>The cipher of package encryption\<close>

text \<open>
  Modelled from the spec: the type \<open>encryption.Cipher\<close> and its two methods. The spec
  gives their contract (4.1): \<open>Encrypt(plaintext) -> ciphertext-string\<close> with a nonce
  drawn per call, \<open>Decrypt(ciphertext-string) -> plaintext\<close>, failing with a
  decryption error on foreign input. A cipher is therefore a pair of functions; \<open>Encrypt\<close>
  reads the random source and may fail, \<open>Decrypt\<close> is pure and may fail.
\<close>

record Cipher =
  Encrypt :: "string \<Rightarrow> rng \<Rightarrow> (error + string) \<times> rng"
  Decrypt :: "string \<Rightarrow> error + string"


section \<open>SessionState (pkg/apis/sessions)\<close>

text \<open>
  The struct of lines 12-21. The two \<open>*time.Time\<close> fields are options (\<open>None\<close> is the nil
  pointer); the string fields are Go strings, whose zero value is the empty string.
\<close>

record SessionState =
  AccessToken :: string
  IDToken :: string
  CreatedAt :: "Time option"
  ExpiresOn :: "Time option"
  RefreshToken :: string
  Email :: string
  User :: string
  PreferredUsername :: string

text \<open>The zero value, \<open>var ss SessionState\<close>.\<close>

definition zero_SessionState :: SessionState where
  "zero_SessionState =
     \<lparr> AccessToken = [], IDToken = [], CreatedAt = None, ExpiresOn = None,
       RefreshToken = [], Email = [], User = [], PreferredUsername = [] \<rparr>"

text \<open>\<open>IsExpired\<close>, with the reading of \<open>time.Now()\<close> as an argument.\<close>

definition IsExpired :: "Time \<Rightarrow> SessionState \<Rightarrow> bool" where
  "IsExpired now s =
     (case ExpiresOn s of None \<Rightarrow> False | Some t \<Rightarrow> \<not> IsZero t \<and> Before t now)"

section \<open>encoding/json on a SessionState\<close>

text \<open>
  \<open>encoding/json\<close> is a library outside the repository. Its text layer (the characters of
  a JSON text, escapes, white space, the letter case of keys, the RFC 3339 text of a
  time) is abstracted: a string that holds a serialized session is modelled by the JSON
  document its text denotes, with the keys already resolved to the struct's field names
  and a string under a time key that parses as a time given as that time. What follows
  is the mapping between the struct and the document, which the struct tags of lines
  13-20 (all \<open>json:",omitempty"\<close>) decide.
\<close>

datatype jvalue = JNull | JString string | JTime Time | JOther

datatype json =
    JSyntaxError
  | JNullDoc
  | JOtherDoc
  | JObject "(string \<times> jvalue) list"

text \<open>
  The encoder writes a string rune by rune and writes U+FFFD (the bytes EF BF BD) for
  every byte that does not begin a UTF-8 encoding; \<open>utf8_coerce s\<close> is the string that the
  text it writes denotes.
\<close>

function utf8_coerce :: "string \<Rightarrow> string" where
  "utf8_coerce s =
     (if s = [] then []
      else if rune_size s = 0 then [CHR 0xEF, CHR 0xBF, CHR 0xBD] @ utf8_coerce (tl s)
      else take (rune_size s) s @ utf8_coerce (drop (rune_size s) s))"
  by pat_completeness auto
termination
  by (relation "measure length") auto

declare utf8_coerce.simps [simp del]

text \<open>
  \<open>Time.MarshalJSON\<close> fails when the year, in the location of the value, is outside
  0..9999: year 0 begins 366 days before the zero Time and year 10000 begins 3652059
  days after it. Otherwise it writes the local date and time to the nanosecond and the
  zone as hours and minutes, the offset divided by 60 with the remainder dropped
  (\<open>zone_minutes\<close>, Go's division truncating towards zero).
\<close>

definition local_nanos :: "Time \<Rightarrow> int" where
  "local_nanos t = nanos t + zone t * 1000000000"

definition marshalable_time :: "Time option \<Rightarrow> bool" where
  "marshalable_time v =
     (case v of None \<Rightarrow> True
      | Some t \<Rightarrow> - 366 * 86400000000000 \<le> local_nanos t
                 \<and> local_nanos t < 3652059 * 86400000000000)"

definition zone_minutes :: "int \<Rightarrow> int" where
  "zone_minutes off = (if off < 0 then - ((- off) div 60) else off div 60)"

text \<open>
  What the written text denotes when it is read back: the local date and time taken at
  the written zone, so the instant moves by the seconds of the offset that the zone
  field dropped. The hour of the zone is written with two digits at least; with three or
  more the text is no RFC 3339 time, and the member is then a string that is not a time
  (which string does not matter to the decoder). This is Go 1.14, the release the change
  log of the repository names; a later release whose \<open>MarshalJSON\<close> refuses a zone of 24
  hours or more differs from it for such zones only.
\<close>

definition time_json :: "Time \<Rightarrow> jvalue" where
  "time_json t =
     (if 100 \<le> \<bar>zone_minutes (zone t)\<bar> div 60 then JString ''time with a zone of 100 hours or more''
      else JTime \<lparr> nanos = local_nanos t - zone_minutes (zone t) * 60 * 1000000000,
                   zone = zone_minutes (zone t) * 60 \<rparr>)"

text \<open>\<open>omitempty\<close>: an empty string and a nil pointer are left out of the object.\<close>

definition omitempty_string :: "string \<Rightarrow> string \<Rightarrow> (string \<times> jvalue) list" where
  "omitempty_string k v = (if v = [] then [] else [(k, JString (utf8_coerce v))])"

definition omitempty_time :: "string \<Rightarrow> Time option \<Rightarrow> (string \<times> jvalue) list" where
  "omitempty_time k v = (case v of None \<Rightarrow> [] | Some t \<Rightarrow> [(k, time_json t)])"

definition json_Marshal :: "SessionState \<Rightarrow> error + json" where
  "json_Marshal ss =
     (if marshalable_time (CreatedAt ss) \<and> marshalable_time (ExpiresOn ss)
      then Inr (JObject
             (omitempty_string ''AccessToken'' (AccessToken ss) @
              omitempty_string ''IDToken'' (IDToken ss) @
              omitempty_time ''CreatedAt'' (CreatedAt ss) @
              omitempty_time ''ExpiresOn'' (ExpiresOn ss) @
              omitempty_string ''RefreshToken'' (RefreshToken ss) @
              omitempty_string ''Email'' (Email ss) @
              omitempty_string ''User'' (User ss) @
              omitempty_string ''PreferredUsername'' (PreferredUsername ss)))
      else Inl JSONMarshalError)"

text \<open>
  Decoding one member into a string field: a JSON string is stored, \<open>null\<close> leaves the
  field as it is, anything else is a type error. Into a \<open>*time.Time\<close> field: a time is
  stored, \<open>null\<close> sets the pointer to nil, anything else is an error.
\<close>

definition string_field ::
  "(string \<Rightarrow> SessionState) \<Rightarrow> SessionState \<Rightarrow> jvalue \<Rightarrow> error + SessionState" where
  "string_field upd ss v =
     (case v of JString x \<Rightarrow> Inr (upd x) | JNull \<Rightarrow> Inr ss | JTime t \<Rightarrow> Inl JSONTypeError
      | JOther \<Rightarrow> Inl JSONTypeError)"

definition time_field ::
  "(Time option \<Rightarrow> SessionState) \<Rightarrow> jvalue \<Rightarrow> error + SessionState" where
  "time_field upd v =
     (case v of JTime t \<Rightarrow> Inr (upd (Some t)) | JNull \<Rightarrow> Inr (upd None)
      | JString x \<Rightarrow> Inl JSONTypeError | JOther \<Rightarrow> Inl JSONTypeError)"

definition set_field :: "SessionState \<Rightarrow> string \<Rightarrow> jvalue \<Rightarrow> error + SessionState" where
  "set_field ss k v =
     (if k = ''AccessToken'' then string_field (\<lambda>x. ss\<lparr>AccessToken := x\<rparr>) ss v
      else if k = ''IDToken'' then string_field (\<lambda>x. ss\<lparr>IDToken := x\<rparr>) ss v
      else if k = ''CreatedAt'' then time_field (\<lambda>x. ss\<lparr>CreatedAt := x\<rparr>) v
      else if k = ''ExpiresOn'' then time_field (\<lambda>x. ss\<lparr>ExpiresOn := x\<rparr>) v
      else if k = ''RefreshToken'' then string_field (\<lambda>x. ss\<lparr>RefreshToken := x\<rparr>) ss v
      else if k = ''Email'' then string_field (\<lambda>x. ss\<lparr>Email := x\<rparr>) ss v
      else if k = ''User'' then string_field (\<lambda>x. ss\<lparr>User := x\<rparr>) ss v
      else if k = ''PreferredUsername'' then string_field (\<lambda>x. ss\<lparr>PreferredUsername := x\<rparr>) ss v
      else Inr ss)"

text \<open>The members are decoded in their order, a later one overwriting an earlier one.\<close>

fun decode_object :: "(string \<times> jvalue) list \<Rightarrow> SessionState \<Rightarrow> error + SessionState" where
  "decode_object [] ss = Inr ss"
| "decode_object ((k, v) # kvs) ss =
     (case set_field ss k v of Inl e \<Rightarrow> Inl e | Inr ss' \<Rightarrow> decode_object kvs ss')"

text \<open>\<open>json.Unmarshal(data, &ss)\<close>: \<open>ss\<close> is the value the pointer holds before the call.\<close>

definition json_Unmarshal :: "json \<Rightarrow> SessionState \<Rightarrow> error + SessionState" where
  "json_Unmarshal v ss =
     (case v of JSyntaxError \<Rightarrow> Inl JSONSyntaxError
      | JNullDoc \<Rightarrow> Inr ss
      | JOtherDoc \<Rightarrow> Inl JSONTypeError
      | JObject kvs \<Rightarrow> decode_object kvs ss)"

section \<open>The session state codec\<close>

text \<open>
  The step repeated six times in lines 71-106:
  \<open>if ss.F != "" { ss.F, err = c.Encrypt(ss.F); if err != nil { return "", err } }\<close>.
  The result is the new value of the field, or the error to return.
\<close>

definition encrypt_field :: "Cipher \<Rightarrow> string \<Rightarrow> rng \<Rightarrow> (error + string) \<times> rng" where
  "encrypt_field c v r = (if v \<noteq> [] then Encrypt c v r else (Inr v, r))"

text \<open>\<open>EncodeSessionState\<close> (lines 61-111); the cipher is \<open>None\<close> for a nil pointer.\<close>

definition EncodeSessionState ::
  "SessionState \<Rightarrow> Cipher option \<Rightarrow> rng \<Rightarrow> (error + json) \<times> rng" where
  "EncodeSessionState s c r =
     (case c of
        None \<Rightarrow>
          (json_Marshal (zero_SessionState
             \<lparr> Email := Email s, User := User s, PreferredUsername := PreferredUsername s \<rparr>), r)
      | Some c \<Rightarrow>
          (case encrypt_field c (Email s) r of (Inl err, r1) \<Rightarrow> (Inl err, r1)
           | (Inr email, r1) \<Rightarrow>
          (case encrypt_field c (User s) r1 of (Inl err, r2) \<Rightarrow> (Inl err, r2)
           | (Inr user, r2) \<Rightarrow>
          (case encrypt_field c (PreferredUsername s) r2 of (Inl err, r3) \<Rightarrow> (Inl err, r3)
           | (Inr preferred, r3) \<Rightarrow>
          (case encrypt_field c (AccessToken s) r3 of (Inl err, r4) \<Rightarrow> (Inl err, r4)
           | (Inr access, r4) \<Rightarrow>
          (case encrypt_field c (IDToken s) r4 of (Inl err, r5) \<Rightarrow> (Inl err, r5)
           | (Inr idtoken, r5) \<Rightarrow>
          (case encrypt_field c (RefreshToken s) r5 of (Inl err, r6) \<Rightarrow> (Inl err, r6)
           | (Inr refresh, r6) \<Rightarrow>
              (json_Marshal (s\<lparr> Email := email, User := user, PreferredUsername := preferred,
                                AccessToken := access, IDToken := idtoken,
                                RefreshToken := refresh \<rparr>), r6))))))))"

text \<open>
  Lines 130-142, for Email and for User: the field is replaced by its decryption when
  that succeeds and keeps its value when it fails.
\<close>

definition decrypt_soft :: "Cipher \<Rightarrow> string \<Rightarrow> string" where
  "decrypt_soft c v =
     (if v \<noteq> [] then (case Decrypt c v of Inr d \<Rightarrow> d | Inl errField \<Rightarrow> v) else v)"

text \<open>
  Lines 143-166, for the other four fields:
  \<open>if ss.F != "" { ss.F, err = c.Decrypt(ss.F); if err != nil { return nil, err } }\<close>.
\<close>

definition decrypt_field :: "Cipher \<Rightarrow> string \<Rightarrow> error + string" where
  "decrypt_field c v = (if v \<noteq> [] then Decrypt c v else Inr v)"

text \<open>Lines 168-170.\<close>

definition default_user :: "SessionState \<Rightarrow> SessionState" where
  "default_user ss = (if User ss = [] then ss\<lparr>User := Email ss\<rparr> else ss)"

text \<open>\<open>DecodeSessionState\<close> (lines 114-172).\<close>

definition DecodeSessionState :: "json \<Rightarrow> Cipher option \<Rightarrow> error + SessionState" where
  "DecodeSessionState v c =
     (case json_Unmarshal v zero_SessionState of
        Inl err \<Rightarrow> Inl (Wrapped ''error unmarshalling session'' err)
      | Inr ss \<Rightarrow>
          (case c of
             None \<Rightarrow>
               Inr (default_user (zero_SessionState
                      \<lparr> Email := Email ss, User := User ss,
                        PreferredUsername := PreferredUsername ss \<rparr>))
           | Some c \<Rightarrow>
               (let ss1 = ss\<lparr>Email := decrypt_soft c (Email ss)\<rparr>;
                    ss2 = ss1\<lparr>User := decrypt_soft c (User ss1)\<rparr>
                in case decrypt_field c (PreferredUsername ss2) of Inl err \<Rightarrow> Inl err
                   | Inr preferred \<Rightarrow>
                  (case decrypt_field c (AccessToken ss2) of Inl err \<Rightarrow> Inl err
                   | Inr access \<Rightarrow>
                  (case decrypt_field c (IDToken ss2) of Inl err \<Rightarrow> Inl err
                   | Inr idtoken \<Rightarrow>
                  (case decrypt_field c (RefreshToken ss2) of Inl err \<Rightarrow> Inl err
                   | Inr refresh \<Rightarrow>
                      Inr (default_user
                             (ss2\<lparr> PreferredUsername := preferred, AccessToken := access,
                                   IDToken := idtoken, RefreshToken := refresh \<rparr>))))))))"

section \<open>encoding/hex and encoding/base64\<close>

text \<open>\<open>hex.EncodeToString\<close>: two lower-case digits for each byte.\<close>

definition hextable :: string where
  "hextable = ''0123456789abcdef''"

definition hex_byte :: "char \<Rightarrow> string" where
  "hex_byte c = [hextable ! ((of_char c :: nat) div 16), hextable ! ((of_char c :: nat) mod 16)]"

definition hex_EncodeToString :: "string \<Rightarrow> string" where
  "hex_EncodeToString src = concat (map hex_byte src)"

text \<open>
  \<open>hex.DecodeString\<close> succeeds on an even number of hexadecimal digits of either case.
  The only caller discards the decoded bytes, so the model keeps the success alone.
\<close>

definition fromHexChar_ok :: "char \<Rightarrow> bool" where
  "fromHexChar_ok c = (c \<in> set ''0123456789abcdefABCDEF'')"

definition hex_DecodeString_ok :: "string \<Rightarrow> bool" where
  "hex_DecodeString_ok s = (even (length s) \<and> list_all fromHexChar_ok s)"

text \<open>
  \<open>base64.RawURLEncoding\<close>: the URL alphabet, no padding. Three bytes give four
  characters; a last group of one byte gives two and one of two bytes gives three.
\<close>

definition encodeURL :: string where
  "encodeURL = ''ABCDEFGHIJKLMNOPQRSTUVWXYZabcdefghijklmnopqrstuvwxyz0123456789-_''"

definition b64_char :: "nat \<Rightarrow> char" where
  "b64_char n = encodeURL ! n"

fun b64_EncodeToString :: "string \<Rightarrow> string" where
  "b64_EncodeToString (a # b # c # rest) =
     (let v = (of_char a :: nat) * 65536 + of_char b * 256 + of_char c
      in [b64_char (v div 262144), b64_char (v div 4096 mod 64),
          b64_char (v div 64 mod 64), b64_char (v mod 64)] @ b64_EncodeToString rest)"
| "b64_EncodeToString [a, b] =
     (let v = (of_char a :: nat) * 65536 + of_char b * 256
      in [b64_char (v div 262144), b64_char (v div 4096 mod 64), b64_char (v div 64 mod 64)])"
| "b64_EncodeToString [a] =
     (let v = (of_char a :: nat) * 65536
      in [b64_char (v div 262144), b64_char (v div 4096 mod 64)])"
| "b64_EncodeToString [] = []"

text \<open>
  Decoding skips carriage returns and line feeds, fails on any other character outside
  the alphabet and on a last group of one character, and (not being strict) ignores the
  unused low bits of a last group.
\<close>

fun index_of :: "char \<Rightarrow> string \<Rightarrow> nat option" where
  "index_of c [] = None"
| "index_of c (x # xs) = (if c = x then Some 0 else map_option Suc (index_of c xs))"

fun sextets :: "string \<Rightarrow> nat list option" where
  "sextets [] = Some []"
| "sextets (c # cs) =
     (case index_of c encodeURL of None \<Rightarrow> None
      | Some n \<Rightarrow> (case sextets cs of None \<Rightarrow> None | Some ns \<Rightarrow> Some (n # ns)))"

fun decode_quanta :: "nat list \<Rightarrow> error + string" where
  "decode_quanta (a # b # c # d # rest) =
     (let v = ((a * 64 + b) * 64 + c) * 64 + d
      in case decode_quanta rest of Inl e \<Rightarrow> Inl e
         | Inr bs \<Rightarrow> Inr ([char_of (v div 65536), char_of (v div 256 mod 256), char_of (v mod 256)] @ bs))"
| "decode_quanta [a, b, c] =
     (let v = ((a * 64 + b) * 64 + c) * 64
      in Inr [char_of (v div 65536), char_of (v div 256 mod 256)])"
| "decode_quanta [a, b] =
     (let v = (a * 64 + b) * 4096
      in Inr [char_of (v div 65536)])"
| "decode_quanta [a] = Inl CorruptInputError"
| "decode_quanta [] = Inr []"

definition b64_DecodeString :: "string \<Rightarrow> error + string" where
  "b64_DecodeString s =
     (case sextets (filter (\<lambda>c. c \<noteq> CHR 0x0A \<and> c \<noteq> CHR 0x0D) s) of
        None \<Rightarrow> Inl CorruptInputError
      | Some ns \<Rightarrow> decode_quanta ns)"

section \<open>Package strings\<close>

definition HasPrefix :: "string \<Rightarrow> string \<Rightarrow> bool" where
  "HasPrefix s prefix = (take (length prefix) s = prefix)"

definition TrimPrefix :: "string \<Rightarrow> string \<Rightarrow> string" where
  "TrimPrefix s prefix = (if HasPrefix s prefix then drop (length prefix) s else s)"

text \<open>\<open>strings.Split\<close> with a separator of one character.\<close>

fun Split :: "string \<Rightarrow> char \<Rightarrow> string list" where
  "Split [] sep = [[]]"
| "Split (c # cs) sep =
     (if c = sep then [] # Split cs sep
      else (case Split cs sep of [] \<Rightarrow> [[c]] | p # ps \<Rightarrow> (c # p) # ps))"

section \<open>crypto/aes and crypto/cipher\<close>

text \<open>
  The libraries outside the repository and the two functions of package \<open>encryption\<close>
  that the redis store calls are parameters of the model, collected in one record:
  \<^item> \<open>aes_Encrypt key block\<close> is the AES encryption of one block under a key;
  \<^item> \<open>Validate now cookie seed expiration\<close> is \<open>encryption.Validate\<close> called when the clock
    reads \<open>now\<close>, returning the value, its timestamp and the verdict;
  \<^item> \<open>SignedValue seed key value now\<close> is \<open>encryption.SignedValue\<close>;
  \<^item> \<open>json_text\<close> and \<open>json_parse\<close> are the text layer of \<open>encoding/json\<close>: the text of a
    document, and the document a text denotes.
\<close>

record Cookie =
  Name_Cookie :: string
  Value :: string
  Expires :: Time

record Lib =
  aes_Encrypt :: "string \<Rightarrow> string \<Rightarrow> string"
  Validate :: "Time \<Rightarrow> Cookie \<Rightarrow> string \<Rightarrow> duration \<Rightarrow> string \<times> Time \<times> bool"
  SignedValue :: "string \<Rightarrow> string \<Rightarrow> string \<Rightarrow> Time \<Rightarrow> string"
  json_text :: "json \<Rightarrow> string"
  json_parse :: "string \<Rightarrow> json"

definition BlockSize :: nat where
  "BlockSize = 16"

text \<open>\<open>aes.NewCipher\<close>: a key of 16, 24 or 32 bytes gives the block cipher, any other
  length a \<open>KeySizeError\<close>.\<close>

definition aes_NewCipher :: "Lib \<Rightarrow> string \<Rightarrow> error + (string \<Rightarrow> string)" where
  "aes_NewCipher L key =
     (if length key = 16 \<or> length key = 24 \<or> length key = 32
      then Inr (aes_Encrypt L key) else Inl (KeySizeError (length key)))"

text \<open>
  The CFB stream of \<open>crypto/cipher\<close>: the block cipher, the block to encrypt next, and
  the direction. The constructors panic when the IV is not one block long; they return
  no error, so their outcome is \<open>Ok\<close> or \<open>Panic\<close>.
\<close>

record CFB =
  cfb_b :: "string \<Rightarrow> string"
  cfb_next :: string
  cfb_decrypt :: bool

definition newCFB :: "(string \<Rightarrow> string) \<Rightarrow> string \<Rightarrow> bool \<Rightarrow> CFB result" where
  "newCFB block iv decrypt =
     (if length iv \<noteq> BlockSize
      then Panic ''cipher.newCFB: IV length must equal block size''
      else Ok \<lparr> cfb_b = block, cfb_next = iv, cfb_decrypt = decrypt \<rparr>)"

definition NewCFBEncrypter :: "(string \<Rightarrow> string) \<Rightarrow> string \<Rightarrow> CFB result" where
  "NewCFBEncrypter block iv = newCFB block iv False"

definition NewCFBDecrypter :: "(string \<Rightarrow> string) \<Rightarrow> string \<Rightarrow> CFB result" where
  "NewCFBDecrypter block iv = newCFB block iv True"

definition xorBytes :: "string \<Rightarrow> string \<Rightarrow> string" where
  "xorBytes a b = map2 xor_byte a b"

text \<open>
  \<open>XORKeyStream\<close> on a fresh stream, returning the destination: block by block, the
  key stream is the encryption of the previous ciphertext block (of the IV at first).
\<close>

function XORKeyStream :: "CFB \<Rightarrow> string \<Rightarrow> string" where
  "XORKeyStream x src =
     (if src = [] then []
      else (let out = cfb_b x (cfb_next x);
                dst = xorBytes (take BlockSize src) out;
                next' = (if cfb_decrypt x then take BlockSize src else dst)
            in dst @ XORKeyStream (x\<lparr>cfb_next := next'\<rparr>) (drop BlockSize src)))"
  by pat_completeness auto
termination
  by (relation "measure (\<lambda>(x, src). length src)") (auto simp: BlockSize_def)

declare XORKeyStream.simps [simp del]

section \<open>The redis session store (pkg/sessions/redis)\<close>

record TicketData =
  TicketID :: string
  Secret :: string

text \<open>
  Modelled from the spec: \<open>options.CookieOptions\<close>, of which the store reads the cookie
  name, the cookie secret and the expiry (spec 6, configuration surface).
\<close>

record CookieOptions =
  Name :: string
  Secret_CookieOptions :: string
  Expire :: duration

text \<open>
  The store of lines 34-38. Its \<open>Client\<close> is a connection to the cache; the cache it is
  connected to is a state that the operations take and return.
\<close>

record SessionStore =
  CookieCipher :: "Cipher option"
  CookieOptions :: CookieOptions

text \<open>
  Modelled from the spec: the \<open>Client\<close> interface of the package (spec 4.5, backing cache
  abstraction): \<open>Get(key) -> bytes|miss\<close>, \<open>Set(key, bytes, ttl)\<close>, \<open>Del(key)\<close>. The cache
  is a key-value map with the time to live of each entry, and a flag telling whether the
  server can be reached; every operation fails when it cannot. Entries do not expire in
  the model.
\<close>

record Redis =
  entries :: "string \<Rightarrow> (string \<times> duration) option"
  reachable :: bool

definition Client_Get :: "Redis \<Rightarrow> string \<Rightarrow> error + string" where
  "Client_Get redis key =
     (if \<not> reachable redis then Inl RedisUnavailable
      else (case entries redis key of None \<Rightarrow> Inl RedisNil | Some (v, ttl) \<Rightarrow> Inr v))"

definition Client_Set :: "Redis \<Rightarrow> string \<Rightarrow> string \<Rightarrow> duration \<Rightarrow> error option \<times> Redis" where
  "Client_Set redis key v expiration =
     (if \<not> reachable redis then (Some RedisUnavailable, redis)
      else (None, redis\<lparr>entries := (entries redis)(key \<mapsto> (v, expiration))\<rparr>))"

definition Client_Del :: "Redis \<Rightarrow> string \<Rightarrow> error option \<times> Redis" where
  "Client_Del redis key =
     (if \<not> reachable redis then (Some RedisUnavailable, redis)
      else (None, redis\<lparr>entries := (entries redis)(key := None)\<rparr>))"

text \<open>
  An HTTP request is the cookies it carries; \<open>req.Cookie(name)\<close> returns the first of
  that name, or \<open>http.ErrNoCookie\<close>. A response writer is the list of cookies set on it,
  and \<open>http.SetCookie\<close> adds one.
\<close>

record Request =
  Cookies :: "Cookie list"

type_synonym ResponseWriter = "Cookie list"

definition Request_Cookie :: "Request \<Rightarrow> string \<Rightarrow> error + Cookie" where
  "Request_Cookie req name =
     (case filter (\<lambda>c. Name_Cookie c = name) (Cookies req) of
        [] \<Rightarrow> Inl ErrNoCookie | c # cs \<Rightarrow> Inr c)"

definition SetCookie :: "ResponseWriter \<Rightarrow> Cookie \<Rightarrow> ResponseWriter" where
  "SetCookie rw cookie = rw @ [cookie]"

text \<open>
  Modelled from the spec: \<open>cookies.MakeCookieFromOptions\<close>, which builds the cookie of
  the given name and value that expires \<open>expiration\<close> after \<open>now\<close>. The path, domain and
  flags it copies from the options are not modelled.
\<close>

definition MakeCookieFromOptions ::
  "Request \<Rightarrow> string \<Rightarrow> string \<Rightarrow> CookieOptions \<Rightarrow> duration \<Rightarrow> Time \<Rightarrow> Cookie" where
  "MakeCookieFromOptions req name v opts expiration now =
     \<lparr> Name_Cookie = name, Value = v, Expires = Add now expiration \<rparr>"

text \<open>\<open>asHandle\<close> (lines 310-312) and \<open>encodeTicket\<close> (lines 344-348).\<close>

definition asHandle :: "TicketData \<Rightarrow> string \<Rightarrow> string" where
  "asHandle ticket prefix = prefix @ ''-'' @ TicketID ticket"

definition encodeTicket :: "TicketData \<Rightarrow> string \<Rightarrow> string" where
  "encodeTicket ticket prefix =
     (let handle = asHandle ticket prefix;
          ticketString = handle @ ''.'' @ b64_EncodeToString (Secret ticket)
      in ticketString)"

text \<open>\<open>decodeTicket\<close> (lines 314-342).\<close>

definition decodeTicket :: "string \<Rightarrow> string \<Rightarrow> error + TicketData" where
  "decodeTicket cookieName ticketString =
     (let prefix = cookieName @ ''-'' in
      if \<not> HasPrefix ticketString prefix then Inl (Msg ''failed to decode ticket handle'')
      else
        (let trimmedTicket = TrimPrefix ticketString prefix;
             ticketParts = Split trimmedTicket (CHR ''.'')
         in if length ticketParts \<noteq> 2 then Inl (Msg ''failed to decode ticket'')
            else
              (let ticketID = ticketParts ! 0; secretBase64 = ticketParts ! 1
               in if \<not> hex_DecodeString_ok ticketID
                  then Inl (Msg ''server ticket failed sanity checks'')
                  else (case b64_DecodeString secretBase64 of
                          Inl err \<Rightarrow> Inl (Wrapped ''failed to decode initialization vector'' err)
                        | Inr secret \<Rightarrow> Inr \<lparr> TicketID = ticketID, Secret = secret \<rparr>))))"

text \<open>\<open>newTicket\<close> (lines 291-308).\<close>

definition newTicket :: "rng \<Rightarrow> (error + TicketData) \<times> rng" where
  "newTicket r =
     (case ReadFull 16 r of
        (Inl err, r1) \<Rightarrow> (Inl (Wrapped ''failed to create new ticket ID'' err), r1)
      | (Inr rawID, r1) \<Rightarrow>
          (let ticketID = hex_EncodeToString rawID in
           case ReadFull BlockSize r1 of
             (Inl err, r2) \<Rightarrow> (Inl (Wrapped ''failed to create initialization vector'' err), r2)
           | (Inr secret, r2) \<Rightarrow> (Inr \<lparr> TicketID = ticketID, Secret = secret \<rparr>, r2)))"

text \<open>\<open>getTicket\<close> (lines 270-289); \<open>None\<close> is the nil cookie.\<close>

definition getTicket ::
  "Lib \<Rightarrow> SessionStore \<Rightarrow> Time \<Rightarrow> Cookie option \<Rightarrow> rng \<Rightarrow> (error + TicketData) \<times> rng" where
  "getTicket L store now requestCookie r =
     (case requestCookie of
        None \<Rightarrow> newTicket r
      | Some cookie \<Rightarrow>
          (case Validate L now cookie (Secret_CookieOptions (CookieOptions store))
                  (Expire (CookieOptions store)) of
             (val, t, ok) \<Rightarrow>
               if \<not> ok then newTicket r
               else (case decodeTicket (Name (CookieOptions store)) val of
                       Inl err \<Rightarrow> newTicket r
                     | Inr ticket \<Rightarrow> (Inr ticket, r))))"

text \<open>\<open>makeCookie\<close> (lines 230-242).\<close>

definition makeCookie ::
  "Lib \<Rightarrow> SessionStore \<Rightarrow> Request \<Rightarrow> string \<Rightarrow> duration \<Rightarrow> Time \<Rightarrow> Cookie" where
  "makeCookie L store req v expires now =
     (let v' = (if v \<noteq> []
                then SignedValue L (Secret_CookieOptions (CookieOptions store))
                       (Name (CookieOptions store)) v now
                else v)
      in MakeCookieFromOptions req (Name (CookieOptions store)) v' (CookieOptions store)
           expires now)"

text \<open>
  \<open>storeValue\<close> (lines 244-266). The results are the outcome (the ticket string, the
  error, or the panic of \<open>NewCFBEncrypter\<close>), the random source and the cache.
\<close>

definition storeValue ::
  "Lib \<Rightarrow> SessionStore \<Rightarrow> Time \<Rightarrow> string \<Rightarrow> duration \<Rightarrow> Cookie option \<Rightarrow> rng \<Rightarrow> Redis
     \<Rightarrow> string result \<times> rng \<times> Redis" where
  "storeValue L store now v expiration requestCookie r redis =
     (case getTicket L store now requestCookie r of
        (Inl err, r1) \<Rightarrow> (Err (Wrapped ''error getting ticket'' err), r1, redis)
      | (Inr ticket, r1) \<Rightarrow>
          (case aes_NewCipher L (Secret ticket) of
             Inl err \<Rightarrow> (Err (Wrapped ''error initiating cipher block'' err), r1, redis)
           | Inr block \<Rightarrow>
               (case NewCFBEncrypter block (Secret ticket) of
                  Panic p \<Rightarrow> (Panic p, r1, redis)
                | Err err \<Rightarrow> (Err err, r1, redis)
                | Ok stream \<Rightarrow>
                    (let ciphertext = XORKeyStream stream v;
                         handle = asHandle ticket (Name (CookieOptions store))
                     in case Client_Set redis handle ciphertext expiration of
                          (Some err, redis') \<Rightarrow> (Err err, r1, redis')
                        | (None, redis') \<Rightarrow>
                            (Ok (encodeTicket ticket (Name (CookieOptions store))), r1, redis')))))"

text \<open>
  \<open>Save\<close> (lines 113-141). The arguments are the clock reading, the response writer, the
  request, the session, the random source and the cache; the results are the outcome
  (\<open>Ok ()\<close> for a nil error), the response writer, the session (which \<open>Save\<close> updates
  through its pointer), the random source and the cache.
\<close>

definition Save ::
  "Lib \<Rightarrow> SessionStore \<Rightarrow> Time \<Rightarrow> ResponseWriter \<Rightarrow> Request \<Rightarrow> SessionState \<Rightarrow> rng \<Rightarrow> Redis
     \<Rightarrow> unit result \<times> ResponseWriter \<times> SessionState \<times> rng \<times> Redis" where
  "Save L store now rw req s r redis =
     (let s1 = (if (case CreatedAt s of None \<Rightarrow> True | Some t \<Rightarrow> IsZero t)
                then s\<lparr>CreatedAt := Some now\<rparr> else s);
          requestCookie = (case Request_Cookie req (Name (CookieOptions store)) of
                             Inl err \<Rightarrow> None | Inr cookie \<Rightarrow> Some cookie)
      in case EncodeSessionState s1 (CookieCipher store) r of
           (Inl err, r1) \<Rightarrow> (Err err, rw, s1, r1, redis)
         | (Inr v, r1) \<Rightarrow>
             (case storeValue L store now (json_text L v) (Expire (CookieOptions store))
                     requestCookie r1 redis of
                (Panic p, r2, redis') \<Rightarrow> (Panic p, rw, s1, r2, redis')
              | (Err err, r2, redis') \<Rightarrow> (Err err, rw, s1, r2, redis')
              | (Ok ticketString, r2, redis') \<Rightarrow>
                  (case CreatedAt s1 of
                     None \<Rightarrow> (Panic ''nil pointer dereference'', rw, s1, r2, redis')
                   | Some createdAt \<Rightarrow>
                       (let ticketCookie = makeCookie L store req ticketString
                                             (Expire (CookieOptions store)) createdAt
                        in (Ok (), SetCookie rw ticketCookie, s1, r2, redis')))))"

text \<open>\<open>loadSessionFromString\<close> (lines 164-188).\<close>

definition loadSessionFromString ::
  "Lib \<Rightarrow> SessionStore \<Rightarrow> Redis \<Rightarrow> string \<Rightarrow> SessionState result" where
  "loadSessionFromString L store redis v =
     (case decodeTicket (Name (CookieOptions store)) v of
        Inl err \<Rightarrow> Err err
      | Inr ticket \<Rightarrow>
          (case Client_Get redis (asHandle ticket (Name (CookieOptions store))) of
             Inl err \<Rightarrow> Err err
           | Inr resultBytes \<Rightarrow>
               (case aes_NewCipher L (Secret ticket) of
                  Inl err \<Rightarrow> Err err
                | Inr block \<Rightarrow>
                    (case NewCFBDecrypter block (Secret ticket) of
                       Panic p \<Rightarrow> Panic p
                     | Err err \<Rightarrow> Err err
                     | Ok stream \<Rightarrow>
                         (let resultBytes' = XORKeyStream stream resultBytes
                          in case DecodeSessionState (json_parse L resultBytes')
                                    (CookieCipher store) of
                               Inl err \<Rightarrow> Err err
                             | Inr session \<Rightarrow> Ok session)))))"

text \<open>\<open>Load\<close> (lines 145-161).\<close>

definition Load :: "Lib \<Rightarrow> SessionStore \<Rightarrow> Time \<Rightarrow> Request \<Rightarrow> Redis \<Rightarrow> SessionState result" where
  "Load L store now req redis =
     (case Request_Cookie req (Name (CookieOptions store)) of
        Inl err \<Rightarrow> Err (Wrapped ''error loading session'' err)
      | Inr requestCookie \<Rightarrow>
          (case Validate L now requestCookie (Secret_CookieOptions (CookieOptions store))
                  (Expire (CookieOptions store)) of
             (val, t, ok) \<Rightarrow>
               if \<not> ok then Err (Msg ''cookie signature not valid'')
               else (case loadSessionFromString L store redis val of
                       Panic p \<Rightarrow> Panic p
                     | Err err \<Rightarrow> Err (Wrapped ''error loading session'' err)
                     | Ok session \<Rightarrow> Ok session)))"

text \<open>\<open>Clear\<close> (lines 192-227); it calls nothing that panics, and returns its error.\<close>

definition Clear ::
  "Lib \<Rightarrow> SessionStore \<Rightarrow> Time \<Rightarrow> ResponseWriter \<Rightarrow> Request \<Rightarrow> Redis
     \<Rightarrow> error option \<times> ResponseWriter \<times> Redis" where
  "Clear L store now rw req redis =
     (let clearCookie = makeCookie L store req [] (Hour * (- 1)) now;
          rw1 = SetCookie rw clearCookie
      in case Request_Cookie req (Name (CookieOptions store)) of
           Inl err \<Rightarrow>
             if err = ErrNoCookie then (None, rw1, redis)
             else (Some (Wrapped ''error retrieving cookie'' err), rw1, redis)
         | Inr requestCookie \<Rightarrow>
             (case Validate L now requestCookie (Secret_CookieOptions (CookieOptions store))
                     (Expire (CookieOptions store)) of
                (val, t, ok) \<Rightarrow>
                  if \<not> ok then (Some (Msg ''cookie signature not valid''), rw1, redis)
                  else (case decodeTicket (Name (CookieOptions store)) val of
                          Inl err \<Rightarrow> (None, rw1, redis)
                        | Inr ticket \<Rightarrow>
                            (case Client_Del redis (asHandle ticket (Name (CookieOptions store))) of
                               (Some err, redis') \<Rightarrow>
                                 (Some (Wrapped ''error clearing cookie from redis'' err), rw1, redis')
                             | (None, redis') \<Rightarrow> (None, rw1, redis')))))"

text \<open>The contract of the AES block cipher used below: an encrypted block is one block long.\<close>

definition aes_ok :: "Lib \<Rightarrow> bool" where
  "aes_ok L = (\<forall>key block. length (aes_Encrypt L key block) = BlockSize)"

text \<open>
  The contract of signing and validating used below, for a store, the time \<open>createdAt\<close>
  a cookie was signed with and the time \<open>now\<close> of a later request: \<open>Validate\<close> at \<open>now\<close>
  accepts the cookie that \<open>makeCookie\<close> built at \<open>createdAt\<close> from a non-empty value, and
  returns that value. (A cookie older than the expiry is rejected, spec 4.2: the contract
  then does not hold.)
\<close>

definition signing_ok :: "Lib \<Rightarrow> SessionStore \<Rightarrow> Time \<Rightarrow> Time \<Rightarrow> bool" where
  "signing_ok L store createdAt now =
     (\<forall>req v. v \<noteq> [] \<longrightarrow>
        (\<exists>t. Validate L now (makeCookie L store req v (Expire (CookieOptions store)) createdAt)
               (Secret_CookieOptions (CookieOptions store)) (Expire (CookieOptions store))
             = (v, t, True)))"

section \<open>The default provider (providers/provider_default.go)\<close>

text \<open>
  \<open>RefreshSessionIfNeeded\<close> (lines 147-149) returns \<open>false, nil\<close>; the error result is an
  option, \<open>None\<close> for nil. The provider data is not inspected, so its type is left open.
\<close>

definition RefreshSessionIfNeeded :: "'p \<Rightarrow> SessionState \<Rightarrow> bool \<times> error option" where
  "RefreshSessionIfNeeded p s = (False, None)"

section \<open>Instances of the cipher and of the library parameters\<close>

text \<open>
  A small cipher that meets the contract, for instantiating the theorems below. It has
  the shape the spec describes, the base64 text of a nonce followed by the ciphertext:
  sixteen random bytes are the nonce, every plaintext byte is xor-ed with the first of
  them, and decryption fails on a string that is not base64 or is shorter than a nonce.
\<close>

definition xor_cipher :: Cipher where
  "xor_cipher =
     \<lparr> Encrypt = (\<lambda>p r. case ReadFull 16 r of
                           (Inl e, r') \<Rightarrow> (Inl e, r')
                         | (Inr iv, r') \<Rightarrow>
                             (Inr (b64_EncodeToString (iv @ map (xor_byte (hd iv)) p)), r')),
       Decrypt = (\<lambda>ct. case b64_DecodeString ct of
                          Inl e \<Rightarrow> Inl DecryptionError
                        | Inr bs \<Rightarrow>
                            if length bs < 16 then Inl DecryptionError
                            else Inr (map (xor_byte (hd bs)) (drop 16 bs))) \<rparr>"

text \<open>
  A small instance of the record \<open>Lib\<close>, for the same use. It stands in for the libraries
  and is not a model of them:
  \<^item> the block cipher xors the block with the key (both cut or zero-padded to one block);
  \<^item> a signed value is the value, a bar and the seed, and validation accepts exactly the
    cookie values that end in a bar and the seed;
  \<^item> the text of a document writes a string member as \<open>"k":"s...",\<close> and a time member as
    \<open>"k":"t\<close>, twenty decimal digits for the instant and six for the zone; the parser reads
    this text back.
\<close>

definition xor_block :: "string \<Rightarrow> string \<Rightarrow> string" where
  "xor_block key block =
     map2 xor_byte (take BlockSize (key @ replicate BlockSize (CHR 0x00)))
                   (take BlockSize (block @ replicate BlockSize (CHR 0x00)))"

definition tag_SignedValue :: "string \<Rightarrow> string \<Rightarrow> string \<Rightarrow> Time \<Rightarrow> string" where
  "tag_SignedValue seed key v now = v @ CHR ''|'' # seed"

definition tag_Validate :: "Time \<Rightarrow> Cookie \<Rightarrow> string \<Rightarrow> duration \<Rightarrow> string \<times> Time \<times> bool" where
  "tag_Validate now cookie seed expiration =
     (let v = Value cookie; n = length v - (length seed + 1)
      in if length seed + 1 \<le> length v \<and> drop n v = CHR ''|'' # seed
         then (take n v, now, True) else ([], \<lparr> nanos = 0, zone = 0 \<rparr>, False))"

fun dec :: "nat \<Rightarrow> nat \<Rightarrow> string" where
  "dec 0 n = []"
| "dec (Suc w) n = dec w (n div 10) @ [char_of (48 + n mod 10)]"

definition undec :: "string \<Rightarrow> nat" where
  "undec s = foldl (\<lambda>a c. a * 10 + ((of_char c :: nat) - 48)) 0 s"

definition text_value :: "jvalue \<Rightarrow> string" where
  "text_value v =
     (case v of JString x \<Rightarrow> CHR 0x22 # CHR ''s'' # x @ [CHR 0x22]
      | JTime t \<Rightarrow> CHR 0x22 # CHR ''t'' # dec 20 (nat (nanos t)) @ dec 6 (nat (zone t)) @ [CHR 0x22]
      | JNull \<Rightarrow> ''null''
      | JOther \<Rightarrow> ''0'')"

fun text_members :: "(string \<times> jvalue) list \<Rightarrow> string" where
  "text_members [] = []"
| "text_members ((k, v) # kvs) =
     CHR 0x22 # k @ CHR 0x22 # CHR '':'' # text_value v @
     (if kvs = [] then ''}'' else CHR '','' # text_members kvs)"

definition mini_json_text :: "json \<Rightarrow> string" where
  "mini_json_text d =
     (case d of JObject kvs \<Rightarrow> CHR ''{'' # (if kvs = [] then ''}'' else text_members kvs)
      | JNullDoc \<Rightarrow> ''null''
      | JOtherDoc \<Rightarrow> ''0''
      | JSyntaxError \<Rightarrow> ''?'')"

fun until_quote :: "string \<Rightarrow> (string \<times> string) option" where
  "until_quote [] = None"
| "until_quote (c # cs) =
     (if c = CHR 0x22 then Some ([], cs)
      else (case until_quote cs of None \<Rightarrow> None | Some (a, rest) \<Rightarrow> Some (c # a, rest)))"

fun parse_members :: "nat \<Rightarrow> string \<Rightarrow> (string \<times> jvalue) list option" where
  "parse_members 0 s = None"
| "parse_members (Suc n) s =
     (case s of
        q # s1 \<Rightarrow>
          (if q \<noteq> CHR 0x22 then None
           else case until_quote s1 of
             None \<Rightarrow> None
           | Some (k, s2) \<Rightarrow>
               (case s2 of
                  colon # q2 # tag # s3 \<Rightarrow>
                    (if colon \<noteq> CHR '':'' \<or> q2 \<noteq> CHR 0x22 then None
                     else case until_quote s3 of
                       None \<Rightarrow> None
                     | Some (body, s4) \<Rightarrow>
                         (let v = (if tag = CHR ''s'' then JString body
                                   else JTime \<lparr> nanos = int (undec (take 20 body)),
                                                 zone = int (undec (drop 20 body)) \<rparr>)
                          in case s4 of
                               [] \<Rightarrow> None
                             | sep # s5 \<Rightarrow>
                                 if sep = CHR ''}'' \<and> s5 = [] then Some [(k, v)]
                                 else if sep = CHR '','' then
                                   (case parse_members n s5 of None \<Rightarrow> None
                                    | Some kvs \<Rightarrow> Some ((k, v) # kvs))
                                 else None))
                | short \<Rightarrow> None))
      | [] \<Rightarrow> None)"

definition mini_json_parse :: "string \<Rightarrow> json" where
  "mini_json_parse s =
     (if s = ''{}'' then JObject []
      else if s = ''null'' then JNullDoc
      else if s = ''0'' then JOtherDoc
      else (case s of
              [] \<Rightarrow> JSyntaxError
            | c # cs \<Rightarrow>
                if c \<noteq> CHR ''{'' then JSyntaxError
                else (case parse_members (length cs) cs of
                        None \<Rightarrow> JSyntaxError | Some kvs \<Rightarrow> JObject kvs)))"

definition test_Lib :: Lib where
  "test_Lib =
     \<lparr> aes_Encrypt = xor_block, Validate = tag_Validate, SignedValue = tag_SignedValue,
       json_text = mini_json_text, json_parse = mini_json_parse \<rparr>"

section \<open>Concrete inputs\<close>

text \<open>
  Two stores with the same cookie options, one with the small cipher and one without a
  cipher, a cache that is empty and can be reached, a session, two clock readings and
  sixty-four bytes of the random source.
\<close>

definition opts0 :: CookieOptions where
  "opts0 = \<lparr> Name = ''_oauth2_proxy'', Secret_CookieOptions = ''seed'', Expire = 168 * Hour \<rparr>"

definition store0 :: SessionStore where
  "store0 = \<lparr> CookieCipher = Some xor_cipher, CookieOptions = opts0 \<rparr>"

definition store1 :: SessionStore where
  "store1 = \<lparr> CookieCipher = None, CookieOptions = opts0 \<rparr>"

definition redis0 :: Redis where
  "redis0 = \<lparr> entries = (\<lambda>k. None), reachable = True \<rparr>"

definition session0 :: SessionState where
  "session0 = zero_SessionState \<lparr> AccessToken := ''tok'', Email := ''a@b.com'' \<rparr>"

definition now0 :: Time where
  "now0 = \<lparr> nanos = 1000, zone = 0 \<rparr>"

definition now1 :: Time where
  "now1 = \<lparr> nanos = 2000, zone = 0 \<rparr>"

definition rng0 :: rng where
  "rng0 = ''kkkkkkkkkkkkkkkkqqqqqqqqqqqqqqqq0123456789abcdefABCDEFGHIJKLMNOP''"

section \<open>Predicates used in the statements\<close>

text \<open>
  A timestamp field that the JSON text gives back as it is: nil, or a time whose zone
  offset is a whole number of minutes and less than 24 hours in size.
\<close>

definition exact_zone :: "Time option \<Rightarrow> bool" where
  "exact_zone v =
     (case v of None \<Rightarrow> True | Some t \<Rightarrow> zone t mod 60 = 0 \<and> \<bar>zone t\<bar> < 86400)"

text \<open>A non-empty field value that the cipher fails to decrypt.\<close>

definition decrypt_fails :: "Cipher \<Rightarrow> string \<Rightarrow> bool" where
  "decrypt_fails c v = (v \<noteq> [] \<and> (case Decrypt c v of Inl e \<Rightarrow> True | Inr d \<Rightarrow> False))"

section \<open>Properties of bytes and of UTF-8\<close>



lemma rune_size_ascii: "(of_char c :: nat) < 0x80 \<Longrightarrow> rune_size (c # cs) = 1"
  by (simp add: rune_size_def)

lemma ValidString_ascii: "\<forall>c\<in>set s. (of_char c :: nat) < 0x80 \<Longrightarrow> ValidString s"
proof (induction s)
  case Nil
  then show ?case by (simp add: ValidString.simps)
next
  case (Cons c cs)
  then have "rune_size (c # cs) = 1" by (simp add: rune_size_ascii)
  with Cons show ?case by (subst ValidString.simps) simp
qed

lemma utf8_coerce_valid: "ValidString s \<Longrightarrow> utf8_coerce s = s"
proof (induction s rule: ValidString.induct)
  case (1 s)
  show ?case
  proof (cases "s = []")
    case True
    then show ?thesis by (simp add: utf8_coerce.simps)
  next
    case False
    from "1.prems" False have n: "rune_size s \<noteq> 0" and v: "ValidString (drop (rune_size s) s)"
      by (subst (asm) ValidString.simps, simp split: if_splits)+
    from "1.IH"[OF False n v] have "utf8_coerce (drop (rune_size s) s) = drop (rune_size s) s" .
    with False n show ?thesis by (subst utf8_coerce.simps) simp
  qed
qed

lemma utf8_coerce_Nil_iff: "utf8_coerce s = [] \<longleftrightarrow> s = []"
  by (subst utf8_coerce.simps) auto

section \<open>Properties of the ticket encoding\<close>

subsection \<open>Splitting at a separator\<close>

lemma Split_not_Nil: "Split s sep \<noteq> []"
  by (induction s) (auto split: list.splits)

lemma Split_single: "Split s sep = [b] \<Longrightarrow> s = b \<and> sep \<notin> set b"
  by (induction s arbitrary: b) (auto split: if_splits list.splits simp: Split_not_Nil)

lemma Split_two: "Split s sep = [a, b] \<Longrightarrow> s = a @ sep # b \<and> sep \<notin> set a \<and> sep \<notin> set b"
proof (induction s arbitrary: a)
  case Nil
  then show ?case by simp
next
  case (Cons c cs)
  show ?case
  proof (cases "c = sep")
    case True
    with Cons.prems have "a = []" "Split cs sep = [b]" by auto
    with True Split_single[of cs sep b] show ?thesis by auto
  next
    case False
    with Cons.prems obtain p where "a = c # p" "Split cs sep = [p, b]"
      by (auto split: list.splits)
    with False Cons.IH[of p] show ?thesis by auto
  qed
qed

lemma Split_no_sep: "sep \<notin> set b \<Longrightarrow> Split b sep = [b]"
  by (induction b) auto

lemma Split_join: "sep \<notin> set a \<Longrightarrow> sep \<notin> set b \<Longrightarrow> Split (a @ sep # b) sep = [a, b]"
  by (induction a) (auto simp: Split_no_sep)

subsection \<open>Base64 decoding inverts encoding\<close>

lemma index_of_nth: "distinct xs \<Longrightarrow> n < length xs \<Longrightarrow> index_of (xs ! n) xs = Some n"
proof (induction xs arbitrary: n)
  case Nil
  then show ?case by simp
next
  case (Cons x xs)
  then show ?case by (cases n) auto
qed

lemma distinct_encodeURL: "distinct encodeURL"
  by (simp add: encodeURL_def)

lemma length_encodeURL: "length encodeURL = 64"
  by (simp add: encodeURL_def)

lemma index_of_b64_char: "n < 64 \<Longrightarrow> index_of (b64_char n) encodeURL = Some n"
  unfolding b64_char_def by (rule index_of_nth) (simp_all add: distinct_encodeURL length_encodeURL)

lemma b64_char_in: "n < 64 \<Longrightarrow> b64_char n \<in> set encodeURL"
  unfolding b64_char_def by (rule nth_mem) (simp add: length_encodeURL)

lemma encodeURL_plain:
  "c \<in> set encodeURL \<Longrightarrow> c \<noteq> CHR 0x0A \<and> c \<noteq> CHR 0x0D \<and> c \<noteq> CHR ''.''"
  by (auto simp: encodeURL_def)

lemma of_char_bound: "(of_char c :: nat) < 256"
  by (cases c) simp

lemma recompose64: "(x div 64) * 64 + x mod 64 = (x::nat)"
  by simp

lemma sextet_split:
  "((v div 262144 * 64 + v div 4096 mod 64) * 64 + v div 64 mod 64) * 64 + v mod 64 = (v::nat)"
proof -
  have a: "v div 262144 = v div 4096 div 64" by (simp add: div_mult2_eq[symmetric])
  have b: "v div 4096 = v div 64 div 64" by (simp add: div_mult2_eq[symmetric])
  have "v div 262144 * 64 + v div 4096 mod 64 = v div 4096" unfolding a by simp
  moreover have "v div 4096 * 64 + v div 64 mod 64 = v div 64" unfolding b by simp
  ultimately show ?thesis by simp
qed

lemma divmod256:
  assumes "C < (256::nat)"
  shows "(Y * 256 + C) div 256 = Y" "(Y * 256 + C) mod 256 = C"
  using assms by simp_all

lemma bytes3:
  assumes "A < 256" "B < 256" "C < (256::nat)"
  shows "(A * 65536 + B * 256 + C) div 65536 = A"
        "(A * 65536 + B * 256 + C) div 256 mod 256 = B"
        "(A * 65536 + B * 256 + C) mod 256 = C"
proof -
  define X where "X = A * 65536 + B * 256 + C"
  define Y where "Y = A * 256 + B"
  have e: "X = Y * 256 + C" by (simp add: X_def Y_def)
  have d: "X div 256 = Y" and m: "X mod 256 = C"
    unfolding e using assms(3) by (rule divmod256)+
  have yd: "Y div 256 = A" and ym: "Y mod 256 = B"
    unfolding Y_def using assms(2) by (rule divmod256)+
  have "X div 65536 = X div 256 div 256"
    by (simp add: div_mult2_eq[symmetric])
  then have h: "X div 65536 = A" by (simp add: d yd)
  have l: "X div 256 mod 256 = B" by (simp add: d ym)
  show "(A * 65536 + B * 256 + C) div 65536 = A"
        "(A * 65536 + B * 256 + C) div 256 mod 256 = B"
        "(A * 65536 + B * 256 + C) mod 256 = C"
    using h l m unfolding X_def by blast+
qed

lemma v_bound:
  "(of_char a :: nat) * 65536 + of_char b * 256 + of_char c < 16777216"
  using of_char_bound[of a] of_char_bound[of b] of_char_bound[of c] by linarith

lemma top_sextet: "v < 16777216 \<Longrightarrow> v div 262144 < (64::nat)"
  by (simp add: less_mult_imp_div_less)

lemma sextets_quad:
  assumes "n1 < 64" "n2 < 64" "n3 < 64" "n4 < 64" "sextets cs = Some ns"
  shows "sextets (b64_char n1 # b64_char n2 # b64_char n3 # b64_char n4 # cs)
           = Some (n1 # n2 # n3 # n4 # ns)"
  using assms by (simp add: index_of_b64_char)

lemma decode_quad:
  "decode_quanta (n1 # n2 # n3 # n4 # ns) =
     (case decode_quanta ns of Inl e \<Rightarrow> Inl e
      | Inr bs \<Rightarrow>
          Inr ([char_of ((((n1 * 64 + n2) * 64 + n3) * 64 + n4) div 65536),
                char_of ((((n1 * 64 + n2) * 64 + n3) * 64 + n4) div 256 mod 256),
                char_of ((((n1 * 64 + n2) * 64 + n3) * 64 + n4) mod 256)] @ bs))"
  by (simp only: decode_quanta.simps Let_def)

lemma decode_triple:
  "decode_quanta [n1, n2, n3] =
     Inr [char_of ((((n1 * 64 + n2) * 64 + n3) * 64) div 65536),
          char_of ((((n1 * 64 + n2) * 64 + n3) * 64) div 256 mod 256)]"
  by (simp only: decode_quanta.simps Let_def)

lemma decode_pair:
  "decode_quanta [n1, n2] = Inr [char_of (((n1 * 64 + n2) * 4096) div 65536)]"
  by (simp only: decode_quanta.simps Let_def)

lemma decode3:
  fixes a b c :: char
  assumes "v = (of_char a :: nat) * 65536 + of_char b * 256 + of_char c"
  shows "char_of (v div 65536) = a" "char_of (v div 256 mod 256) = b" "char_of (v mod 256) = c"
proof -
  note f = bytes3[OF of_char_bound[of a] of_char_bound[of b] of_char_bound[of c], folded assms]
  show "char_of (v div 65536) = a" by (simp only: f char_of_char)
  show "char_of (v div 256 mod 256) = b" by (simp only: f char_of_char)
  show "char_of (v mod 256) = c" by (simp only: f char_of_char)
qed

lemma decode2:
  fixes a b :: char
  assumes v: "v = (of_char a :: nat) * 65536 + of_char b * 256"
  shows "decode_quanta [v div 262144, v div 4096 mod 64, v div 64 mod 64] = Inr [a, b]"
proof -
  have v': "v = (of_char a :: nat) * 65536 + of_char b * 256 + of_char (CHR 0x00)"
    by (simp add: v)
  have "v = (of_char a * 1024 + of_char b * 4) * 64" by (simp add: v)
  then have m: "v mod 64 = 0" by simp
  have "((v div 262144 * 64 + v div 4096 mod 64) * 64 + v div 64 mod 64) * 64 + v mod 64 = v"
    by (rule sextet_split)
  then have r: "((v div 262144 * 64 + v div 4096 mod 64) * 64 + v div 64 mod 64) * 64 = v"
    by (simp only: m add_0_right)
  show ?thesis
    by (simp only: decode_triple r decode3(1,2)[OF v'])
qed

lemma decode1:
  fixes a :: char
  assumes v: "v = (of_char a :: nat) * 65536"
  shows "decode_quanta [v div 262144, v div 4096 mod 64] = Inr [a]"
proof -
  have v': "v = (of_char a :: nat) * 65536 + of_char (CHR 0x00) * 256 + of_char (CHR 0x00)"
    by (simp add: v)
  have "v = (of_char a * 16) * 4096" by (simp add: v)
  then have d: "v div 4096 * 4096 = v" by simp
  have "v div 262144 = v div 4096 div 64" by (simp add: div_mult2_eq[symmetric])
  then have "v div 262144 * 64 + v div 4096 mod 64 = v div 4096" by simp
  then have r: "(v div 262144 * 64 + v div 4096 mod 64) * 4096 = v"
    by (simp only: d)
  show ?thesis
    by (simp only: decode_pair r decode3(1)[OF v'])
qed

lemma b64_sextets:
  "\<exists>ns. sextets (b64_EncodeToString bs) = Some ns \<and> decode_quanta ns = Inr bs"
proof (induction bs rule: b64_EncodeToString.induct)
  case (1 a b c rest)
  then obtain ns where ns: "sextets (b64_EncodeToString rest) = Some ns"
    "decode_quanta ns = Inr rest" by blast
  define v where "v = (of_char a :: nat) * 65536 + of_char b * 256 + of_char c"
  have vb: "v < 16777216" unfolding v_def by (rule v_bound)
  have e: "b64_EncodeToString (a # b # c # rest) =
        b64_char (v div 262144) # b64_char (v div 4096 mod 64) # b64_char (v div 64 mod 64) #
        b64_char (v mod 64) # b64_EncodeToString rest"
    by (simp add: Let_def v_def)
  have s: "sextets (b64_EncodeToString (a # b # c # rest)) =
        Some (v div 262144 # v div 4096 mod 64 # v div 64 mod 64 # v mod 64 # ns)"
    unfolding e by (rule sextets_quad[OF top_sextet[OF vb] _ _ _ ns(1)]) simp_all
  have "decode_quanta (v div 262144 # v div 4096 mod 64 # v div 64 mod 64 # v mod 64 # ns)
          = Inr ([a, b, c] @ rest)"
    by (simp only: decode_quad ns(2) sum.case sextet_split decode3[OF v_def])
  with s show ?case by simp
next
  case (2 a b)
  define v where "v = (of_char a :: nat) * 65536 + of_char b * 256"
  have vb: "v < 16777216" unfolding v_def using v_bound[of a b "CHR 0x00"] by simp
  have e: "b64_EncodeToString [a, b] =
        [b64_char (v div 262144), b64_char (v div 4096 mod 64), b64_char (v div 64 mod 64)]"
    by (simp add: Let_def v_def)
  have "sextets (b64_EncodeToString [a, b]) = Some [v div 262144, v div 4096 mod 64, v div 64 mod 64]"
    unfolding e using top_sextet[OF vb] by (simp add: index_of_b64_char)
  moreover have "decode_quanta [v div 262144, v div 4096 mod 64, v div 64 mod 64] = Inr [a, b]"
    using v_def by (rule decode2)
  ultimately show ?case by blast
next
  case (3 a)
  define v where "v = (of_char a :: nat) * 65536"
  have vb: "v < 16777216" unfolding v_def using v_bound[of a "CHR 0x00" "CHR 0x00"] by simp
  have e: "b64_EncodeToString [a] = [b64_char (v div 262144), b64_char (v div 4096 mod 64)]"
    by (simp add: Let_def v_def)
  have "sextets (b64_EncodeToString [a]) = Some [v div 262144, v div 4096 mod 64]"
    unfolding e using top_sextet[OF vb] by (simp add: index_of_b64_char)
  moreover have "decode_quanta [v div 262144, v div 4096 mod 64] = Inr [a]"
    using v_def by (rule decode1)
  ultimately show ?case by blast
next
  case 4
  then show ?case by simp
qed

lemma b64_chars: "set (b64_EncodeToString bs) \<subseteq> set encodeURL"
proof (induction bs rule: b64_EncodeToString.induct)
  case (1 a b c rest)
  have "(of_char a :: nat) * 65536 + of_char b * 256 + of_char c < 16777216" by (rule v_bound)
  from top_sextet[OF this] 1 show ?case by (simp add: Let_def b64_char_in)
next
  case (2 a b)
  have "(of_char a :: nat) * 65536 + of_char b * 256 < 16777216"
    using v_bound[of a b "CHR 0x00"] by simp
  from top_sextet[OF this] show ?case by (simp add: Let_def b64_char_in)
next
  case (3 a)
  have "(of_char a :: nat) * 65536 < 16777216"
    using v_bound[of a "CHR 0x00" "CHR 0x00"] by simp
  from top_sextet[OF this] show ?case by (simp add: Let_def b64_char_in)
next
  case 4
  then show ?case by simp
qed

lemma b64_roundtrip: "b64_DecodeString (b64_EncodeToString bs) = Inr bs"
proof -
  have "filter (\<lambda>c. c \<noteq> CHR 0x0A \<and> c \<noteq> CHR 0x0D) (b64_EncodeToString bs) = b64_EncodeToString bs"
    using b64_chars[of bs] encodeURL_plain by (auto simp: filter_id_conv)
  with b64_sextets[of bs] show ?thesis by (auto simp: b64_DecodeString_def)
qed

lemma b64_no_dot: "CHR ''.'' \<notin> set (b64_EncodeToString bs)"
  using b64_chars[of bs] encodeURL_plain by blast

subsection \<open>Hexadecimal ticket IDs\<close>

lemma hextable_ok: "list_all fromHexChar_ok hextable"
  by (simp add: hextable_def fromHexChar_ok_def)

lemma hextable_chars: "n < 16 \<Longrightarrow> fromHexChar_ok (hextable ! n)"
proof -
  have "length hextable = 16" by (simp add: hextable_def)
  with hextable_ok show "n < 16 \<Longrightarrow> fromHexChar_ok (hextable ! n)"
    by (simp add: list_all_length)
qed

lemma hex_byte_ok: "list_all fromHexChar_ok (hex_byte c)"
proof -
  have "(of_char c :: nat) div 16 < 16"
    using of_char_bound[of c] by (simp add: less_mult_imp_div_less)
  moreover have "(of_char c :: nat) mod 16 < 16" by simp
  ultimately show ?thesis unfolding hex_byte_def by (simp only: list.pred_inject hextable_chars)
qed

lemma length_hex_byte: "length (hex_byte c) = 2"
  by (simp add: hex_byte_def)

lemma hex_Encode_ok: "hex_DecodeString_ok (hex_EncodeToString bs)"
proof (induction bs)
  case Nil
  then show ?case by (simp add: hex_DecodeString_ok_def hex_EncodeToString_def)
next
  case (Cons b bs)
  then show ?case
    using hex_byte_ok[of b] length_hex_byte[of b]
    by (simp add: hex_DecodeString_ok_def hex_EncodeToString_def)
qed

lemma dot_not_hex: "\<not> fromHexChar_ok (CHR ''.'')"
  by (simp add: fromHexChar_ok_def)

lemma hex_no_dot:
  assumes "hex_DecodeString_ok a"
  shows "CHR ''.'' \<notin> set a"
proof
  assume "CHR ''.'' \<in> set a"
  moreover from assms have "\<forall>c\<in>set a. fromHexChar_ok c"
    by (simp add: hex_DecodeString_ok_def list_all_iff)
  ultimately show False using dot_not_hex by blast
qed

subsection \<open>Decoding and minting tickets\<close>

lemma length_two: "length xs = 2 \<Longrightarrow> \<exists>a b. xs = [a, b]"
  by (cases xs; cases "tl xs") auto

lemma decodeTicket_prefixed:
  assumes "HasPrefix val (name @ ''-'')"
  shows "decodeTicket name val =
      (if length (Split (TrimPrefix val (name @ ''-'')) (CHR ''.'')) \<noteq> 2
       then Inl (Msg ''failed to decode ticket'')
       else if \<not> hex_DecodeString_ok (Split (TrimPrefix val (name @ ''-'')) (CHR ''.'') ! 0)
       then Inl (Msg ''server ticket failed sanity checks'')
       else (case b64_DecodeString (Split (TrimPrefix val (name @ ''-'')) (CHR ''.'') ! 1) of
               Inl err \<Rightarrow> Inl (Wrapped ''failed to decode initialization vector'' err)
             | Inr secret \<Rightarrow>
                 Inr \<lparr> TicketID = Split (TrimPrefix val (name @ ''-'')) (CHR ''.'') ! 0,
                       Secret = secret \<rparr>))"
  unfolding decodeTicket_def Let_def using assms by (simp only: not_True_eq_False not_False_eq_True if_False if_True simp_thms)

lemma decodeTicket_no_prefix:
  assumes "\<not> HasPrefix val (name @ ''-'')"
  shows "decodeTicket name val = Inl (Msg ''failed to decode ticket handle'')"
  unfolding decodeTicket_def Let_def using assms by (simp only: not_True_eq_False not_False_eq_True if_False if_True simp_thms)

lemma decodeTicket_Inr:
  assumes "decodeTicket name val = Inr ticket"
  shows "\<exists>b. val = name @ ''-'' @ TicketID ticket @ ''.'' @ b \<and>
             hex_DecodeString_ok (TicketID ticket) \<and> b64_DecodeString b = Inr (Secret ticket)"
proof -
  let ?prefix = "name @ ''-''"
  let ?parts = "Split (TrimPrefix val ?prefix) (CHR ''.'')"
  have hp: "HasPrefix val ?prefix"
  proof (rule ccontr)
    assume "\<not> HasPrefix val ?prefix"
    from decodeTicket_no_prefix[OF this] assms show False by simp
  qed
  note unf = decodeTicket_prefixed[OF hp]
  have tk: "take (length ?prefix) val = ?prefix"
    using hp by (simp only: HasPrefix_def)
  have tr: "TrimPrefix val ?prefix = drop (length ?prefix) val"
    using hp by (simp only: TrimPrefix_def if_True)
  have "take (length ?prefix) val @ drop (length ?prefix) val = val"
    by (rule append_take_drop_id)
  then have val: "val = ?prefix @ TrimPrefix val ?prefix"
    by (simp only: tk tr)
  have len: "length ?parts = 2"
  proof (rule ccontr)
    assume "length ?parts \<noteq> 2"
    with unf assms show False by (simp only: if_True) simp
  qed
  obtain a b where sp: "?parts = [a, b]" using len length_two by blast
  have n: "?parts ! 0 = a" "?parts ! 1 = b" unfolding sp by simp_all
  have hx: "hex_DecodeString_ok a"
  proof (rule ccontr)
    assume "\<not> hex_DecodeString_ok a"
    with unf assms len n show False by (simp only: if_True if_False not_True_eq_False simp_thms) simp
  qed
  from unf assms len n hx have
    "(case b64_DecodeString b of
               Inl err \<Rightarrow> Inl (Wrapped ''failed to decode initialization vector'' err)
             | Inr secret \<Rightarrow> Inr \<lparr> TicketID = a, Secret = secret \<rparr>) = Inr ticket"
    by (simp only: if_True if_False not_True_eq_False simp_thms)
  then have dk: "b64_DecodeString b = Inr (Secret ticket)" and a: "a = TicketID ticket"
    by (auto split: sum.splits)
  from Split_two[OF sp] val a have "val = name @ ''-'' @ TicketID ticket @ ''.'' @ b" by simp
  with hx dk a show ?thesis by auto
qed

lemma decode_encode_ticket:
  assumes "hex_DecodeString_ok (TicketID tk)"
  shows "decodeTicket name (encodeTicket tk name) = Inr tk"
proof -
  let ?prefix = "name @ ''-''"
  let ?rest = "TicketID tk @ CHR ''.'' # b64_EncodeToString (Secret tk)"
  have e: "encodeTicket tk name = ?prefix @ ?rest"
    by (simp add: encodeTicket_def asHandle_def)
  have hp: "HasPrefix (?prefix @ ?rest) ?prefix" by (simp add: HasPrefix_def)
  have tp: "TrimPrefix (?prefix @ ?rest) ?prefix = ?rest"
    using hp by (simp add: TrimPrefix_def del: append_assoc)
  have sp: "Split ?rest (CHR ''.'') = [TicketID tk, b64_EncodeToString (Secret tk)]"
    by (rule Split_join[OF hex_no_dot[OF assms] b64_no_dot])
  show ?thesis
    unfolding e decodeTicket_def Let_def
    by (simp add: hp tp sp b64_roundtrip assms del: append_assoc)
qed

lemma newTicket_enough:
  assumes "32 \<le> length r"
  shows "newTicket r =
           (Inr \<lparr> TicketID = hex_EncodeToString (take 16 r), Secret = take 16 (drop 16 r) \<rparr>,
            drop 32 r)"
  using assms by (simp add: newTicket_def ReadFull_def BlockSize_def Let_def)

lemma newTicket_short:
  assumes "length r < 32"
  shows "\<exists>e. fst (newTicket r) = Inl e"
  using assms by (auto simp: newTicket_def ReadFull_def BlockSize_def Let_def)

lemma length_hex_EncodeToString: "length (hex_EncodeToString bs) = 2 * length bs"
  by (induction bs) (simp_all add: hex_EncodeToString_def hex_byte_def)

lemma newTicket_Inr:
  assumes "newTicket r = (Inr tk, r')"
  shows "TicketID tk = hex_EncodeToString (take 16 r)"
  using assms by (auto simp: newTicket_def ReadFull_def BlockSize_def Let_def split: if_splits)

lemma getTicket_hex:
  assumes "getTicket L store now rc r = (Inr tk, r')"
  shows "hex_DecodeString_ok (TicketID tk)"
proof -
  from assms consider "newTicket r = (Inr tk, r')"
    | val where "decodeTicket (Name (CookieOptions store)) val = Inr tk"
    by (auto simp: getTicket_def split: option.splits prod.splits if_splits sum.splits)
  then show ?thesis
  proof cases
    case 1
    from newTicket_Inr[OF this] show ?thesis by (simp add: hex_Encode_ok)
  next
    case 2
    from decodeTicket_Inr[OF this] show ?thesis by blast
  qed
qed

section \<open>Properties of the CFB stream\<close>

lemma xor_byte_cancel_right: "xor_byte (xor_byte a k) k = a"
  by (cases a; cases k) auto

lemma xorBytes_cancel: "length p \<le> length k \<Longrightarrow> xorBytes (xorBytes p k) k = p"
proof (induction p arbitrary: k)
  case Nil
  then show ?case by (simp add: xorBytes_def)
next
  case (Cons a p)
  then obtain b k' where k: "k = b # k'" by (cases k) auto
  with Cons.prems have "length p \<le> length k'" by simp
  from Cons.IH[OF this] show ?case
    unfolding k by (simp add: xorBytes_def xor_byte_cancel_right)
qed

lemma XORKeyStream_step:
  "src \<noteq> [] \<Longrightarrow>
   XORKeyStream x src =
     xorBytes (take BlockSize src) (cfb_b x (cfb_next x)) @
     XORKeyStream
       (x\<lparr>cfb_next := (if cfb_decrypt x then take BlockSize src
                        else xorBytes (take BlockSize src) (cfb_b x (cfb_next x)))\<rparr>)
       (drop BlockSize src)"
  by (subst XORKeyStream.simps) (simp add: Let_def)

lemma length_xorBytes: "length (xorBytes p k) = min (length p) (length k)"
  by (simp add: xorBytes_def)

lemma cfb_roundtrip:
  assumes E: "\<And>blk. length (E blk) = BlockSize"
  shows "XORKeyStream \<lparr> cfb_b = E, cfb_next = iv, cfb_decrypt = True \<rparr>
           (XORKeyStream \<lparr> cfb_b = E, cfb_next = iv, cfb_decrypt = False \<rparr> p) = p"
proof (induction "length p" arbitrary: p iv rule: less_induct)
  case less
  show ?case
  proof (cases "p = []")
    case True
    then show ?thesis by (simp add: XORKeyStream.simps[of _ "[]"])
  next
    case False
    define dst where "dst = xorBytes (take BlockSize p) (E iv)"
    define rest where "rest = XORKeyStream \<lparr> cfb_b = E, cfb_next = dst, cfb_decrypt = False \<rparr> (drop BlockSize p)"
    have enc: "XORKeyStream \<lparr> cfb_b = E, cfb_next = iv, cfb_decrypt = False \<rparr> p = dst @ rest"
      unfolding XORKeyStream_step[OF False] by (simp add: dst_def rest_def)
    have ld: "length dst = min BlockSize (length p)"
      by (simp add: dst_def length_xorBytes E)
    have "0 < length dst" using False ld by (simp add: BlockSize_def)
    then have ne: "dst @ rest \<noteq> []" by simp
    have r0: "length p < BlockSize \<Longrightarrow> rest = []"
      by (simp add: rest_def XORKeyStream.simps[of _ "[]"])
    have tk: "take BlockSize (dst @ rest) = dst" using ld r0 by (cases "length p < BlockSize") auto
    have dr: "drop BlockSize (dst @ rest) = rest" using ld r0 by (cases "length p < BlockSize") auto
    have inv: "xorBytes dst (E iv) = take BlockSize p"
      unfolding dst_def by (rule xorBytes_cancel) (simp add: E)
    have lt: "length (drop BlockSize p) < length p" using False by (simp add: BlockSize_def)
    have "XORKeyStream \<lparr> cfb_b = E, cfb_next = iv, cfb_decrypt = True \<rparr> (dst @ rest)
            = take BlockSize p @ XORKeyStream \<lparr> cfb_b = E, cfb_next = dst, cfb_decrypt = True \<rparr> rest"
      unfolding XORKeyStream_step[OF ne] tk dr by (simp add: inv)
    also have "\<dots> = take BlockSize p @ drop BlockSize p"
      unfolding rest_def using less[OF lt] by simp
    finally show ?thesis unfolding enc by simp
  qed
qed

section \<open>Properties of the codec\<close>

subsection \<open>The small cipher meets the contract\<close>





subsection \<open>Unmarshal inverts Marshal\<close>

lemma decode_object_append:
  "decode_object (xs @ ys) ss =
     (case decode_object xs ss of Inl e \<Rightarrow> Inl e | Inr ss' \<Rightarrow> decode_object ys ss')"
  by (induction xs arbitrary: ss) (auto split: sum.splits)

lemma zone_minutes_exact:
  assumes "z mod 60 = 0"
  shows "zone_minutes z * 60 = z"
proof -
  from assms have "60 dvd z" by (simp add: dvd_eq_mod_eq_0)
  then obtain k where k: "z = 60 * k" by (auto simp: dvd_def)
  show ?thesis
  proof (cases "z < 0")
    case True
    then show ?thesis unfolding k zone_minutes_def by simp
  next
    case False
    then show ?thesis unfolding k zone_minutes_def by simp
  qed
qed

lemma time_json_exact:
  assumes "exact_zone (Some t)"
  shows "time_json t = JTime t"
proof -
  from assms have m: "zone t mod 60 = 0" and b: "\<bar>zone t\<bar> < 86400"
    by (simp_all add: exact_zone_def)
  note e = zone_minutes_exact[OF m]
  have "\<bar>zone_minutes (zone t)\<bar> * 60 = \<bar>zone t\<bar>"
    using e by (simp add: abs_mult[symmetric])
  with b have "\<bar>zone_minutes (zone t)\<bar> < 1440" by simp
  then have h: "\<not> 100 \<le> \<bar>zone_minutes (zone t)\<bar> div 60" by simp
  have n: "local_nanos t - zone t * 1000000000 = nanos t"
    unfolding local_nanos_def by simp
  show ?thesis unfolding time_json_def using h by (simp add: n e)
qed

lemma omitempty_time_exact:
  "exact_zone v \<Longrightarrow> omitempty_time k v = (case v of None \<Rightarrow> [] | Some t \<Rightarrow> [(k, JTime t)])"
  by (cases v) (simp_all add: omitempty_time_def time_json_exact)

lemma json_Marshal_Inr:
  assumes "json_Marshal ss = Inr d"
  shows "d = JObject
             (omitempty_string ''AccessToken'' (AccessToken ss) @
              omitempty_string ''IDToken'' (IDToken ss) @
              omitempty_time ''CreatedAt'' (CreatedAt ss) @
              omitempty_time ''ExpiresOn'' (ExpiresOn ss) @
              omitempty_string ''RefreshToken'' (RefreshToken ss) @
              omitempty_string ''Email'' (Email ss) @
              omitempty_string ''User'' (User ss) @
              omitempty_string ''PreferredUsername'' (PreferredUsername ss))"
  using assms by (auto simp: json_Marshal_def split: if_splits)

lemma decode_omitempty_string:
  assumes "set_field ss k (JString (utf8_coerce v)) = Inr (upd (utf8_coerce v))" "upd [] = ss"
  shows "decode_object (omitempty_string k v) ss = Inr (upd (utf8_coerce v))"
  using assms by (cases "v = []") (simp_all add: omitempty_string_def utf8_coerce_Nil_iff[THEN iffD2])

lemma json_roundtrip:
  assumes "json_Marshal ss = Inr d" "exact_zone (CreatedAt ss)" "exact_zone (ExpiresOn ss)"
  shows "json_Unmarshal d zero_SessionState =
           Inr (ss\<lparr> AccessToken := utf8_coerce (AccessToken ss),
                     IDToken := utf8_coerce (IDToken ss),
                     RefreshToken := utf8_coerce (RefreshToken ss),
                     Email := utf8_coerce (Email ss),
                     User := utf8_coerce (User ss),
                     PreferredUsername := utf8_coerce (PreferredUsername ss) \<rparr>)"
proof -
  have e: "utf8_coerce [] = []" by (simp add: utf8_coerce_Nil_iff)
  show ?thesis
    unfolding json_Marshal_Inr[OF assms(1)] json_Unmarshal_def
      omitempty_time_exact[OF assms(2)] omitempty_time_exact[OF assms(3)]
    apply (simp add: decode_object_append)
    apply (simp add: omitempty_string_def set_field_def string_field_def
        time_field_def zero_SessionState_def e split: option.splits)
    done
qed

subsection \<open>Decrypting what was encrypted\<close>


lemma Encode_Some_Inr:
  assumes "EncodeSessionState s (Some c) r = (Inr v, r')"
  obtains email user preferred access idtoken refresh r1 r2 r3 r4 r5 where
    "encrypt_field c (Email s) r = (Inr email, r1)"
    "encrypt_field c (User s) r1 = (Inr user, r2)"
    "encrypt_field c (PreferredUsername s) r2 = (Inr preferred, r3)"
    "encrypt_field c (AccessToken s) r3 = (Inr access, r4)"
    "encrypt_field c (IDToken s) r4 = (Inr idtoken, r5)"
    "encrypt_field c (RefreshToken s) r5 = (Inr refresh, r')"
    "json_Marshal (s\<lparr> Email := email, User := user, PreferredUsername := preferred,
                       AccessToken := access, IDToken := idtoken,
                       RefreshToken := refresh \<rparr>) = Inr v"
  using assms unfolding EncodeSessionState_def
  by (auto split: prod.splits sum.splits)


lemma codec_roundtrip_None:
  "EncodeSessionState s None r =
     (Inr (JObject (omitempty_string ''Email'' (Email s) @ omitempty_string ''User'' (User s) @
                    omitempty_string ''PreferredUsername'' (PreferredUsername s))), r)"
  "DecodeSessionState
       (JObject (omitempty_string ''Email'' (Email s) @ omitempty_string ''User'' (User s) @
                 omitempty_string ''PreferredUsername'' (PreferredUsername s))) None =
     Inr \<lparr> AccessToken = [], IDToken = [], CreatedAt = None, ExpiresOn = None,
           RefreshToken = [], Email = utf8_coerce (Email s),
           User = (if User s = [] then utf8_coerce (Email s) else utf8_coerce (User s)),
           PreferredUsername = utf8_coerce (PreferredUsername s) \<rparr>"
proof -
  let ?ss = "zero_SessionState
               \<lparr> Email := Email s, User := User s, PreferredUsername := PreferredUsername s \<rparr>"
  let ?d = "JObject (omitempty_string ''Email'' (Email s) @ omitempty_string ''User'' (User s) @
                    omitempty_string ''PreferredUsername'' (PreferredUsername s))"
  have m: "json_Marshal ?ss = Inr ?d"
    by (simp add: json_Marshal_def zero_SessionState_def marshalable_time_def
        omitempty_string_def omitempty_time_def)
  show "EncodeSessionState s None r = (Inr ?d, r)"
    by (simp add: EncodeSessionState_def m)
  have z: "exact_zone (CreatedAt ?ss)" "exact_zone (ExpiresOn ?ss)"
    by (simp_all add: exact_zone_def zero_SessionState_def)
  have e: "utf8_coerce [] = []" by (simp add: utf8_coerce_Nil_iff)
  have "DecodeSessionState ?d None =
      Inr (default_user (zero_SessionState
         \<lparr> Email := utf8_coerce (Email s), User := utf8_coerce (User s),
           PreferredUsername := utf8_coerce (PreferredUsername s) \<rparr>))"
    unfolding DecodeSessionState_def json_roundtrip[OF m z]
    by (simp add: zero_SessionState_def e)
  then show "DecodeSessionState ?d None =
     Inr \<lparr> AccessToken = [], IDToken = [], CreatedAt = None, ExpiresOn = None,
           RefreshToken = [], Email = utf8_coerce (Email s),
           User = (if User s = [] then utf8_coerce (Email s) else utf8_coerce (User s)),
           PreferredUsername = utf8_coerce (PreferredUsername s) \<rparr>"
    by (simp add: default_user_def zero_SessionState_def utf8_coerce_Nil_iff)
qed

lemma decrypt_field_Inl: "(\<exists>e. decrypt_field c v = Inl e) = decrypt_fails c v"
  by (auto simp: decrypt_field_def decrypt_fails_def split: sum.splits)

lemma decrypt_soft_fails: "decrypt_fails c v \<Longrightarrow> decrypt_soft c v = v"
  by (auto simp: decrypt_soft_def decrypt_fails_def split: sum.splits)

lemma json_absent:
  assumes "json_Marshal ss = Inr d" "json_Unmarshal d zero_SessionState = Inr ss'"
  shows "AccessToken ss' = utf8_coerce (AccessToken ss)"
    "IDToken ss' = utf8_coerce (IDToken ss)"
    "RefreshToken ss' = utf8_coerce (RefreshToken ss)"
    "Email ss' = utf8_coerce (Email ss)"
    "User ss' = utf8_coerce (User ss)"
    "PreferredUsername ss' = utf8_coerce (PreferredUsername ss)"
    "CreatedAt ss = None \<Longrightarrow> CreatedAt ss' = None"
    "ExpiresOn ss = None \<Longrightarrow> ExpiresOn ss' = None"
proof -
  have e: "utf8_coerce [] = []" by (simp add: utf8_coerce_Nil_iff)
  have t: "decode_object (omitempty_time ''CreatedAt'' v) x = Inr y \<Longrightarrow>
             y = x\<lparr>CreatedAt := CreatedAt y\<rparr> \<and> (v = None \<longrightarrow> y = x)" for v x y
    by (cases v) (auto simp: omitempty_time_def time_json_def set_field_def time_field_def
        split: if_splits)
  have u: "decode_object (omitempty_time ''ExpiresOn'' v) x = Inr y \<Longrightarrow>
             y = x\<lparr>ExpiresOn := ExpiresOn y\<rparr> \<and> (v = None \<longrightarrow> y = x)" for v x y
    by (cases v) (auto simp: omitempty_time_def time_json_def set_field_def time_field_def
        split: if_splits)
  have s: "decode_object (omitempty_string ''AccessToken'' (AccessToken ss) @
              omitempty_string ''IDToken'' (IDToken ss)) zero_SessionState =
       Inr (zero_SessionState\<lparr>AccessToken := utf8_coerce (AccessToken ss),
                              IDToken := utf8_coerce (IDToken ss)\<rparr>)"
    by (simp add: decode_object_append omitempty_string_def set_field_def string_field_def
        zero_SessionState_def e)
  have r: "decode_object (omitempty_string ''RefreshToken'' (RefreshToken ss) @
              omitempty_string ''Email'' (Email ss) @
              omitempty_string ''User'' (User ss) @
              omitempty_string ''PreferredUsername'' (PreferredUsername ss)) x =
       Inr (x\<lparr>RefreshToken := (if RefreshToken ss = [] then RefreshToken x else utf8_coerce (RefreshToken ss)),
              Email := (if Email ss = [] then Email x else utf8_coerce (Email ss)),
              User := (if User ss = [] then User x else utf8_coerce (User ss)),
              PreferredUsername := (if PreferredUsername ss = [] then PreferredUsername x
                                    else utf8_coerce (PreferredUsername ss))\<rparr>)" for x
    by (simp add: decode_object_append omitempty_string_def set_field_def string_field_def)
  define a where "a = zero_SessionState\<lparr>AccessToken := utf8_coerce (AccessToken ss),
                              IDToken := utf8_coerce (IDToken ss)\<rparr>"
  from assms(2) obtain b c where
    b: "decode_object (omitempty_time ''CreatedAt'' (CreatedAt ss)) a = Inr b"
    and c: "decode_object (omitempty_time ''ExpiresOn'' (ExpiresOn ss)) b = Inr c"
    and d: "ss' = c\<lparr>RefreshToken := (if RefreshToken ss = [] then RefreshToken c else utf8_coerce (RefreshToken ss)),
              Email := (if Email ss = [] then Email c else utf8_coerce (Email ss)),
              User := (if User ss = [] then User c else utf8_coerce (User ss)),
              PreferredUsername := (if PreferredUsername ss = [] then PreferredUsername c
                                    else utf8_coerce (PreferredUsername ss))\<rparr>"
    unfolding json_Marshal_Inr[OF assms(1)] json_Unmarshal_def json.case
      append_assoc[symmetric, of "omitempty_string ''AccessToken'' (AccessToken ss)"]
      decode_object_append[of "omitempty_string ''AccessToken'' (AccessToken ss) @
              omitempty_string ''IDToken'' (IDToken ss)"] s sum.case a_def[symmetric]
      decode_object_append[of "omitempty_time ''CreatedAt'' (CreatedAt ss)"]
      decode_object_append[of "omitempty_time ''ExpiresOn'' (ExpiresOn ss)"] r
    by (auto split: sum.splits)
  note tb = t[OF b] and uc = u[OF c]
  have b': "b = a\<lparr>CreatedAt := CreatedAt b\<rparr>" and c': "c = b\<lparr>ExpiresOn := ExpiresOn c\<rparr>"
    using tb uc by simp_all
  have flds: "AccessToken c = utf8_coerce (AccessToken ss)" "IDToken c = utf8_coerce (IDToken ss)"
    "RefreshToken c = []" "Email c = []" "User c = []" "PreferredUsername c = []"
    by (subst c', subst b', simp add: a_def zero_SessionState_def)+
  show "AccessToken ss' = utf8_coerce (AccessToken ss)"
    "IDToken ss' = utf8_coerce (IDToken ss)"
    "RefreshToken ss' = utf8_coerce (RefreshToken ss)"
    "Email ss' = utf8_coerce (Email ss)"
    "User ss' = utf8_coerce (User ss)"
    "PreferredUsername ss' = utf8_coerce (PreferredUsername ss)"
    unfolding d by (simp_all add: flds e)
  show "CreatedAt ss' = None" if "CreatedAt ss = None"
  proof -
    from tb that have "b = a" by simp
    then have "CreatedAt c = None" by (subst c') (simp add: a_def zero_SessionState_def)
    then show ?thesis unfolding d by simp
  qed
  show "ExpiresOn ss' = None" if "ExpiresOn ss = None"
  proof -
    from uc that have "c = b" by simp
    moreover have "ExpiresOn b = None" by (subst b') (simp add: a_def zero_SessionState_def)
    ultimately have "ExpiresOn c = None" by simp
    then show ?thesis unfolding d by simp
  qed
qed

lemma utf8_coerce_ascii: "\<forall>c\<in>set s. (of_char c :: nat) < 0x80 \<Longrightarrow> utf8_coerce s = s"
  by (rule utf8_coerce_valid, rule ValidString_ascii) simp

lemmas xor_cipher_eval =
  xor_cipher_def ReadFull_def b64_char_def b64_DecodeString_def encodeURL_def Let_def
  char_of_def bit_Suc_0_iff

lemmas Encode_eval =
  EncodeSessionState_def encrypt_field_def json_Marshal_def marshalable_time_def
  local_nanos_def omitempty_string_def omitempty_time_def time_json_def zone_minutes_def
  zero_SessionState_def utf8_coerce_ascii

lemmas Decode_eval =
  DecodeSessionState_def json_Unmarshal_def set_field_def string_field_def time_field_def
  decrypt_soft_def decrypt_field_def default_user_def zero_SessionState_def

subsection \<open>The claims about the codec\<close>




text \<open>
  Claim C2. For a serialized session that deserializes (to \<open>ss\<close>) and a configured
  cipher, \<open>DecodeSessionState\<close> returns an error exactly when one of preferredUsername,
  accessToken, idToken and refreshToken fails to decrypt; a failure to decrypt the email
  or the user is no error, and the field then keeps its raw value.
\<close>

theorem Decode_decryption_failures:
  assumes "json_Unmarshal v zero_SessionState = Inr ss"
  shows "((\<exists>e. DecodeSessionState v (Some c) = Inl e) \<longleftrightarrow>
            (decrypt_fails c (PreferredUsername ss) \<or> decrypt_fails c (AccessToken ss) \<or>
             decrypt_fails c (IDToken ss) \<or> decrypt_fails c (RefreshToken ss)))
       \<and> (\<forall>s'. DecodeSessionState v (Some c) = Inr s' \<longrightarrow>
             (decrypt_fails c (Email ss) \<longrightarrow> Email s' = Email ss) \<and>
             (decrypt_fails c (User ss) \<longrightarrow> User s' = User ss))"
proof -
  have err: "(\<exists>e. DecodeSessionState v (Some c) = Inl e) \<longleftrightarrow>
            (decrypt_fails c (PreferredUsername ss) \<or> decrypt_fails c (AccessToken ss) \<or>
             decrypt_fails c (IDToken ss) \<or> decrypt_fails c (RefreshToken ss))"
    unfolding DecodeSessionState_def assms decrypt_field_Inl[symmetric]
    by (auto simp: Let_def split: sum.splits)
  have ok: "DecodeSessionState v (Some c) = Inr s' \<Longrightarrow>
       Email s' = decrypt_soft c (Email ss) \<and>
       (decrypt_fails c (User ss) \<longrightarrow> User s' = User ss)" for s'
    unfolding DecodeSessionState_def assms
    by (auto simp: Let_def default_user_def decrypt_soft_fails decrypt_fails_def
        split: sum.splits)
  show ?thesis using err ok by (auto simp: decrypt_soft_fails)
qed

theorem Decode_decryption_failures_witness:
  "json_Unmarshal (JObject [(''Email'', JString ''a@b.com''), (''User'', JString ''bob'')])
       zero_SessionState
     = Inr (zero_SessionState\<lparr>Email := ''a@b.com'', User := ''bob''\<rparr>)
   \<and> decrypt_fails xor_cipher ''a@b.com'' \<and> decrypt_fails xor_cipher ''bob''
   \<and> DecodeSessionState (JObject [(''Email'', JString ''a@b.com''), (''User'', JString ''bob'')])
       (Some xor_cipher)
     = Inr (zero_SessionState\<lparr>Email := ''a@b.com'', User := ''bob''\<rparr>)
   \<and> json_Unmarshal (JObject [(''AccessToken'', JString ''tok'')]) zero_SessionState
     = Inr (zero_SessionState\<lparr>AccessToken := ''tok''\<rparr>)
   \<and> decrypt_fails xor_cipher ''tok''
   \<and> (\<exists>e. DecodeSessionState (JObject [(''AccessToken'', JString ''tok'')]) (Some xor_cipher)
            = Inl e)"
proof -
  have u1: "json_Unmarshal (JObject [(''Email'', JString ''a@b.com''), (''User'', JString ''bob'')])
       zero_SessionState
     = Inr (zero_SessionState\<lparr>Email := ''a@b.com'', User := ''bob''\<rparr>)"
    by (simp add: json_Unmarshal_def set_field_def string_field_def)
  have u2: "json_Unmarshal (JObject [(''AccessToken'', JString ''tok'')]) zero_SessionState
     = Inr (zero_SessionState\<lparr>AccessToken := ''tok''\<rparr>)"
    by (simp add: json_Unmarshal_def set_field_def string_field_def)
  have f: "decrypt_fails xor_cipher ''a@b.com''" "decrypt_fails xor_cipher ''bob''"
    "decrypt_fails xor_cipher ''tok''"
    by (simp_all add: decrypt_fails_def xor_cipher_eval)
  have d: "DecodeSessionState (JObject [(''Email'', JString ''a@b.com''), (''User'', JString ''bob'')])
       (Some xor_cipher)
     = Inr (zero_SessionState\<lparr>Email := ''a@b.com'', User := ''bob''\<rparr>)"
    by (simp add: Decode_eval xor_cipher_eval)
  from Decode_decryption_failures[OF u2, of xor_cipher] f
  have "\<exists>e. DecodeSessionState (JObject [(''AccessToken'', JString ''tok'')]) (Some xor_cipher)
            = Inl e"
    by (simp add: zero_SessionState_def)
  with u1 u2 f d show ?thesis by simp
qed


text \<open>
  A session with an email and no user: after encoding and decoding the user is present,
  it is the email. And a stored document has no way to tell an empty refresh token from
  an absent one: the document with the member \<open>"RefreshToken": ""\<close> and the document
  without it decode to the same session. Claim C3 does not hold as it is stated.
\<close>

theorem absent_User_comes_back:
  "User (zero_SessionState\<lparr>Email := ''a@b.com''\<rparr>) = []
   \<and> EncodeSessionState (zero_SessionState\<lparr>Email := ''a@b.com''\<rparr>) None [] =
       (Inr (JObject [(''Email'', JString ''a@b.com'')]), [])
   \<and> DecodeSessionState (JObject [(''Email'', JString ''a@b.com'')]) None =
       Inr \<lparr> AccessToken = [], IDToken = [], CreatedAt = None, ExpiresOn = None,
             RefreshToken = [], Email = ''a@b.com'', User = ''a@b.com'',
             PreferredUsername = [] \<rparr>
   \<and> DecodeSessionState
         (JObject [(''Email'', JString ''a2tra2tra2tra2tra2traworCUUIBAY''),
                   (''RefreshToken'', JString [])]) (Some xor_cipher) =
       Inr \<lparr> AccessToken = [], IDToken = [], CreatedAt = None, ExpiresOn = None,
             RefreshToken = [], Email = ''a@b.com'', User = ''a@b.com'',
             PreferredUsername = [] \<rparr>
   \<and> DecodeSessionState
         (JObject [(''Email'', JString ''a2tra2tra2tra2tra2traworCUUIBAY'')]) (Some xor_cipher) =
       Inr \<lparr> AccessToken = [], IDToken = [], CreatedAt = None, ExpiresOn = None,
             RefreshToken = [], Email = ''a@b.com'', User = ''a@b.com'',
             PreferredUsername = [] \<rparr>"
proof -
  have "EncodeSessionState (zero_SessionState\<lparr>Email := ''a@b.com''\<rparr>) None [] =
       (Inr (JObject [(''Email'', JString ''a@b.com'')]), [])"
    by (simp add: Encode_eval)
  moreover have "DecodeSessionState (JObject [(''Email'', JString ''a@b.com'')]) None =
       Inr \<lparr> AccessToken = [], IDToken = [], CreatedAt = None, ExpiresOn = None,
             RefreshToken = [], Email = ''a@b.com'', User = ''a@b.com'',
             PreferredUsername = [] \<rparr>"
    by (simp add: Decode_eval)
  moreover have "DecodeSessionState
         (JObject [(''Email'', JString ''a2tra2tra2tra2tra2traworCUUIBAY''),
                   (''RefreshToken'', JString [])]) (Some xor_cipher) =
       Inr \<lparr> AccessToken = [], IDToken = [], CreatedAt = None, ExpiresOn = None,
             RefreshToken = [], Email = ''a@b.com'', User = ''a@b.com'',
             PreferredUsername = [] \<rparr>"
    by (simp add: Decode_eval xor_cipher_eval)
  moreover have "DecodeSessionState
         (JObject [(''Email'', JString ''a2tra2tra2tra2tra2traworCUUIBAY'')]) (Some xor_cipher) =
       Inr \<lparr> AccessToken = [], IDToken = [], CreatedAt = None, ExpiresOn = None,
             RefreshToken = [], Email = ''a@b.com'', User = ''a@b.com'',
             PreferredUsername = [] \<rparr>"
    by (simp add: Decode_eval xor_cipher_eval)
  ultimately show ?thesis by (simp add: zero_SessionState_def)
qed

text \<open>
  Claim C3. A string field is absent when it is the empty string, a timestamp when it is
  nil; the struct has no other value for a missing field. With or without a cipher, when
  \<open>EncodeSessionState\<close> and then \<open>DecodeSessionState\<close> succeed, every field other than the
  user that was absent in the session is absent in the decoded session, and an absent
  user comes back as the decoded email.
\<close>

theorem absent_fields_stay_absent:
  assumes "EncodeSessionState s c r = (Inr v, r')" and "DecodeSessionState v c = Inr s'"
  shows "(AccessToken s = [] \<longrightarrow> AccessToken s' = [])
       \<and> (IDToken s = [] \<longrightarrow> IDToken s' = [])
       \<and> (RefreshToken s = [] \<longrightarrow> RefreshToken s' = [])
       \<and> (Email s = [] \<longrightarrow> Email s' = [])
       \<and> (PreferredUsername s = [] \<longrightarrow> PreferredUsername s' = [])
       \<and> (CreatedAt s = None \<longrightarrow> CreatedAt s' = None)
       \<and> (ExpiresOn s = None \<longrightarrow> ExpiresOn s' = None)
       \<and> (User s = [] \<longrightarrow> User s' = Email s')"
proof (cases c)
  case None
  from assms(1) have v: "v = JObject (omitempty_string ''Email'' (Email s) @
      omitempty_string ''User'' (User s) @
      omitempty_string ''PreferredUsername'' (PreferredUsername s))"
    unfolding None codec_roundtrip_None(1) by simp
  from assms(2) have "s' = \<lparr> AccessToken = [], IDToken = [], CreatedAt = None, ExpiresOn = None,
           RefreshToken = [], Email = utf8_coerce (Email s),
           User = (if User s = [] then utf8_coerce (Email s) else utf8_coerce (User s)),
           PreferredUsername = utf8_coerce (PreferredUsername s) \<rparr>"
    unfolding None v codec_roundtrip_None(2) by simp
  then show ?thesis by (simp add: utf8_coerce_Nil_iff)
next
  case (Some k)
  from assms(1) obtain email user preferred access idtoken refresh r1 r2 r3 r4 r5 where
    e: "encrypt_field k (Email s) r = (Inr email, r1)"
    "encrypt_field k (User s) r1 = (Inr user, r2)"
    "encrypt_field k (PreferredUsername s) r2 = (Inr preferred, r3)"
    "encrypt_field k (AccessToken s) r3 = (Inr access, r4)"
    "encrypt_field k (IDToken s) r4 = (Inr idtoken, r5)"
    "encrypt_field k (RefreshToken s) r5 = (Inr refresh, r')"
    and m: "json_Marshal (s\<lparr> Email := email, User := user, PreferredUsername := preferred,
                       AccessToken := access, IDToken := idtoken,
                       RefreshToken := refresh \<rparr>) = Inr v"
    unfolding Some by (rule Encode_Some_Inr)
  from assms(2) obtain ss where u: "json_Unmarshal v zero_SessionState = Inr ss"
    unfolding Some DecodeSessionState_def by (auto split: sum.splits)
  have z: "x = [] \<Longrightarrow> encrypt_field k x q = (Inr y, q') \<Longrightarrow> utf8_coerce y = []" for x q y q'
    by (auto simp: encrypt_field_def utf8_coerce_Nil_iff)
  note j = json_absent[OF m u]
  have f: "Email s = [] \<Longrightarrow> Email ss = []" "User s = [] \<Longrightarrow> User ss = []"
    "PreferredUsername s = [] \<Longrightarrow> PreferredUsername ss = []"
    "AccessToken s = [] \<Longrightarrow> AccessToken ss = []"
    "IDToken s = [] \<Longrightarrow> IDToken ss = []"
    "RefreshToken s = [] \<Longrightarrow> RefreshToken ss = []"
    "CreatedAt s = None \<Longrightarrow> CreatedAt ss = None"
    "ExpiresOn s = None \<Longrightarrow> ExpiresOn ss = None"
    using j e[THEN z[rotated]] by simp_all
  from assms(2) have d:
    "(let ss1 = ss\<lparr>Email := decrypt_soft k (Email ss)\<rparr>;
          ss2 = ss1\<lparr>User := decrypt_soft k (User ss1)\<rparr>
      in case decrypt_field k (PreferredUsername ss2) of Inl err \<Rightarrow> Inl err
         | Inr preferred \<Rightarrow>
        (case decrypt_field k (AccessToken ss2) of Inl err \<Rightarrow> Inl err
         | Inr access \<Rightarrow>
        (case decrypt_field k (IDToken ss2) of Inl err \<Rightarrow> Inl err
         | Inr idtoken \<Rightarrow>
        (case decrypt_field k (RefreshToken ss2) of Inl err \<Rightarrow> Inl err
         | Inr refresh \<Rightarrow>
            Inr (default_user
                   (ss2\<lparr> PreferredUsername := preferred, AccessToken := access,
                         IDToken := idtoken, RefreshToken := refresh \<rparr>)))))) = Inr s'"
    unfolding Some DecodeSessionState_def u by simp
  from d obtain p a i t where
    p: "decrypt_field k (PreferredUsername ss) = Inr p"
    and a: "decrypt_field k (AccessToken ss) = Inr a"
    and i: "decrypt_field k (IDToken ss) = Inr i"
    and t: "decrypt_field k (RefreshToken ss) = Inr t"
    and s': "s' = default_user (ss\<lparr> Email := decrypt_soft k (Email ss),
                 User := decrypt_soft k (User ss), PreferredUsername := p,
                 AccessToken := a, IDToken := i, RefreshToken := t \<rparr>)"
    by (auto simp: Let_def split: sum.splits)
  have n: "decrypt_soft k [] = []" "\<And>y. decrypt_field k [] = Inr y \<Longrightarrow> y = []"
    by (simp_all add: decrypt_soft_def decrypt_field_def)
  show ?thesis
    unfolding s' using f p a i t n
    by (auto simp: default_user_def)
qed

theorem absent_fields_stay_absent_witness:
  "EncodeSessionState
       \<lparr> AccessToken = ''tok'', IDToken = [],
         CreatedAt = Some \<lparr>nanos = 1000, zone = 3600\<rparr>, ExpiresOn = None,
         RefreshToken = [], Email = ''a@b.com'', User = [], PreferredUsername = [] \<rparr>
       (Some xor_cipher) rng0 =
     (Inr (JObject [(''AccessToken'', JString ''cXFxcXFxcXFxcXFxcXFxcQUeGg''),
                    (''CreatedAt'', JTime \<lparr>nanos = 1000, zone = 3600\<rparr>),
                    (''Email'', JString ''a2tra2tra2tra2tra2traworCUUIBAY'')]),
      ''0123456789abcdefABCDEFGHIJKLMNOP'')
   \<and> (\<exists>s'. DecodeSessionState
       (JObject [(''AccessToken'', JString ''cXFxcXFxcXFxcXFxcXFxcQUeGg''),
                 (''CreatedAt'', JTime \<lparr>nanos = 1000, zone = 3600\<rparr>),
                 (''Email'', JString ''a2tra2tra2tra2tra2traworCUUIBAY'')])
       (Some xor_cipher) = Inr s'
       \<and> IDToken s' = [] \<and> RefreshToken s' = [] \<and> PreferredUsername s' = []
       \<and> ExpiresOn s' = None \<and> User s' = Email s' \<and> Email s' = ''a@b.com'')"
proof -
  let ?s = "\<lparr> AccessToken = ''tok'', IDToken = [],
         CreatedAt = Some \<lparr>nanos = 1000, zone = 3600\<rparr>, ExpiresOn = None,
         RefreshToken = [], Email = ''a@b.com'', User = [], PreferredUsername = [] \<rparr>"
  let ?d = "JObject [(''AccessToken'', JString ''cXFxcXFxcXFxcXFxcXFxcQUeGg''),
                    (''CreatedAt'', JTime \<lparr>nanos = 1000, zone = 3600\<rparr>),
                    (''Email'', JString ''a2tra2tra2tra2tra2traworCUUIBAY'')]"
  let ?s' = "\<lparr> AccessToken = ''tok'', IDToken = [],
           CreatedAt = Some \<lparr>nanos = 1000, zone = 3600\<rparr>, ExpiresOn = None,
           RefreshToken = [], Email = ''a@b.com'', User = ''a@b.com'',
           PreferredUsername = [] \<rparr>"
  have e: "EncodeSessionState ?s (Some xor_cipher) rng0 =
      (Inr ?d, ''0123456789abcdefABCDEFGHIJKLMNOP'')"
    by (simp add: Encode_eval xor_cipher_eval rng0_def)
  have d: "DecodeSessionState ?d (Some xor_cipher) = Inr ?s'"
    by (simp add: Decode_eval xor_cipher_eval)
  from absent_fields_stay_absent[OF e d]
  have "IDToken ?s' = [] \<and> RefreshToken ?s' = [] \<and> PreferredUsername ?s' = []
       \<and> ExpiresOn ?s' = None \<and> User ?s' = Email ?s'"
    by simp
  with e d show ?thesis by simp
qed



section \<open>Properties of the default provider\<close>

text \<open>
  Claim C8. The default provider's \<open>RefreshSessionIfNeeded\<close> returns \<open>false\<close> and a nil
  error for every provider and every session state, an expired one included.
\<close>

theorem RefreshSessionIfNeeded_default: "RefreshSessionIfNeeded p s = (False, None)"
  by (simp add: RefreshSessionIfNeeded_def)

theorem RefreshSessionIfNeeded_default_witness:
  "IsExpired \<lparr>nanos = 660000000001, zone = 0\<rparr>
     (zero_SessionState\<lparr>ExpiresOn := Some \<lparr>nanos = 1, zone = 0\<rparr>\<rparr>)
   \<and> RefreshSessionIfNeeded ()
       (zero_SessionState\<lparr>ExpiresOn := Some \<lparr>nanos = 1, zone = 0\<rparr>\<rparr>) = (False, None)"
  using RefreshSessionIfNeeded_default
    [of "()" "zero_SessionState\<lparr>ExpiresOn := Some \<lparr>nanos = 1, zone = 0\<rparr>\<rparr>"]
  by (simp add: IsExpired_def IsZero_def Before_def zero_SessionState_def)

end
